theory Spec2Isabelle
  imports Complex_Main "HOL-Library.Word"
begin

section \<open>Data model (pkg/models/update.go)\<close>

text \<open>
  ASNs are Go \<open>uint32\<close> values, modelled as 32-bit words. Go's \<open>int\<close> (64 bit on the
  build target) is modelled as \<open>int\<close> with the wrap-around written out where the code
  computes with it. Strings are byte lists. Wall-clock instants (\<open>time.Time\<close>) are
  nanosecond counts; every \<open>time.Now()\<close> of one call is the parameter \<open>now\<close>.
\<close>

type_synonym asn = "32 word"
type_synonym go_time = int

text \<open>The dynamic values stored under \<open>map[string]interface{}\<close>, tagged by their Go type.\<close>

datatype dyn =
    DString string
  | DStrings "string list"
  | DUint32 asn
  | DUint32s "asn list"
  | DBool bool
  | DFloat64 real
  | DInt int
  | DIfaces "dyn list"

record BGPUpdate =
  Timestamp :: "int \<times> int"
  PeerASN :: asn
  Prefix :: string
  ASPath :: "asn list"
  OriginASN :: asn
  Communities :: "string list"
  Announcement :: bool
  Collector :: string

record BGPEvent =
  ID :: string
  CountryCode :: string
  EventType :: string
  Severity :: string
  EventCategory :: string
  RPKIStatus :: string
  IsCrossBorder :: bool
  AttackerCountry :: string
  VictimCountry :: string
  AffectedASN :: asn
  AffectedPrefix :: string
  Details :: "string \<rightharpoonup> dyn"
  DetectedAt :: go_time
  IsActive :: bool

definition SeverityLow :: string where "SeverityLow = ''low''"
definition SeverityMedium :: string where "SeverityMedium = ''medium''"
definition SeverityHigh :: string where "SeverityHigh = ''high''"
definition SeverityCritical :: string where "SeverityCritical = ''critical''"

definition EventTypeHijack :: string where "EventTypeHijack = ''hijack''"
definition EventTypeLeak :: string where "EventTypeLeak = ''leak''"
definition EventTypeBlackhole :: string where "EventTypeBlackhole = ''blackhole''"

definition CategoryAttack :: string where "CategoryAttack = ''attack''"
definition CategoryDefense :: string where "CategoryDefense = ''defense''"
definition CategoryMisconfiguration :: string where "CategoryMisconfiguration = ''misconfiguration''"

text \<open>
  A struct literal leaves the fields it does not name at their zero value.
\<close>

definition zero_event :: BGPEvent where
  "zero_event = \<lparr>ID = [], CountryCode = [], EventType = [], Severity = [],
     EventCategory = [], RPKIStatus = [], IsCrossBorder = False, AttackerCountry = [],
     VictimCountry = [], AffectedASN = 0, AffectedPrefix = [], Details = Map.empty,
     DetectedAt = 0, IsActive = False\<rparr>"

subsection \<open>The buffered event channel\<close>

text \<open>
  A buffered channel is its queued elements and its capacity. Every detector sends with
  \<open>select { case d.events <- event: default: }\<close>: the event is queued when there is
  room and dropped otherwise.
\<close>

record 'a chan =
  buf :: "'a list"
  cap :: nat

definition try_send :: "'a chan \<Rightarrow> 'a \<Rightarrow> 'a chan" where
  "try_send ch x = (if length (buf ch) < cap ch then ch\<lparr>buf := buf ch @ [x]\<rparr> else ch)"

section \<open>Reference tables (package detector)\<close>

definition Tier1ASNs :: "(asn \<times> string) list" where
  "Tier1ASNs =
    [(174, ''Cogent Communications''), (209, ''Lumen (CenturyLink)''), (286, ''KPN''),
     (701, ''Verizon''), (1239, ''Sprint''), (1299, ''Telia''), (1828, ''Unitas Global''),
     (2914, ''NTT America''), (3257, ''GTT''), (3320, ''Deutsche Telekom''),
     (3356, ''Lumen (Level3)''), (3491, ''PCCW Global''), (5511, ''Orange''),
     (6453, ''Tata Communications''), (6461, ''Zayo''), (6762, ''Telecom Italia Sparkle''),
     (6830, ''Liberty Global''), (6939, ''Hurricane Electric''), (7018, ''AT&T''),
     (12956, ''Telefonica'')]"

definition ScrubbingASNs :: "(asn \<times> string) list" where
  "ScrubbingASNs =
    [(198949, ''Radware Ltd''), (48851, ''Radware Ltd - Europe''),
     (25773, ''Radware Inc - US''), (15823, ''Radware Ltd - Israel''),
     (32787, ''Akamai Prolexic''), (20940, ''Akamai Technologies''),
     (16625, ''Akamai Technologies''), (21342, ''Akamai Technologies''),
     (35994, ''Akamai Technologies''), (23454, ''Akamai Technologies''),
     (13335, ''Cloudflare Inc''), (209242, ''Cloudflare Inc''),
     (394536, ''Cloudflare Inc''), (395747, ''Cloudflare Inc''),
     (19551, ''Incapsula Inc''), (62571, ''Imperva Inc''),
     (19905, ''UltraDDoS Protect''), (12008, ''Vercara UltraDNS''),
     (397213, ''Vercara LLC''), (57724, ''DDoS-Guard LTD''), (49612, ''DDoS-Guard LTD''),
     (197068, ''Qrator Labs''), (3223, ''Voxility LLP''), (34309, ''Link11 GmbH''),
     (30148, ''Sucuri''), (20446, ''StackPath ABC LLC''), (33438, ''StackPath / Datum''),
     (397031, ''Path Network Inc''), (16509, ''Amazon AWS Shield''), (14618, ''Amazon''),
     (8075, ''Microsoft Azure DDoS''), (396982, ''Google Cloud Armor''),
     (15169, ''Google'')]"

definition RFC7999Blackhole :: string where
  "RFC7999Blackhole = ''65535:666''"

definition ProviderBlackholeCommunities :: "(asn \<times> string) list" where
  "ProviderBlackholeCommunities =
    [(3356, ''3356:9999''), (1299, ''1299:999''), (3491, ''3491:999''), (286, ''286:66''),
     (2914, ''2914:666''), (3257, ''3257:666''), (7018, ''7018:666''), (6939, ''6939:666''),
     (3320, ''3320:666''), (6453, ''6453:666''), (6461, ''6461:666''), (701, ''701:666''),
     (1239, ''1239:666''), (12956, ''12956:666''), (6762, ''6762:666''),
     (6830, ''6830:666''), (9002, ''9002:666''), (20804, ''20804:666'')]"

text \<open>
  \<open>init()\<close> fills the lookup set: the RFC 7999 tag, then every provider tag, each mapped
  to \<open>true\<close>.
\<close>

definition KnownBlackholeCommunities :: "string \<rightharpoonup> bool" where
  "KnownBlackholeCommunities =
     foldl (\<lambda>m (a, community). m(community \<mapsto> True))
       (Map.empty(RFC7999Blackhole \<mapsto> True)) ProviderBlackholeCommunities"

definition IsTier1 :: "asn \<Rightarrow> bool" where
  "IsTier1 a = (map_of Tier1ASNs a \<noteq> None)"

definition IsScrubbing :: "asn \<Rightarrow> bool" where
  "IsScrubbing a = (map_of ScrubbingASNs a \<noteq> None)"

text \<open>Indexing a \<open>map[string]bool\<close> with an absent key yields \<open>false\<close>.\<close>

definition IsBlackholeCommunity :: "string \<Rightarrow> bool" where
  "IsBlackholeCommunity community =
     (case KnownBlackholeCommunities community of Some b \<Rightarrow> b | None \<Rightarrow> False)"

fun HasBlackholeCommunity :: "string list \<Rightarrow> bool" where
  "HasBlackholeCommunity [] = False"
| "HasBlackholeCommunity (c # cs) =
     (if IsBlackholeCommunity c then True else HasBlackholeCommunity cs)"

fun HasScrubbingCenter :: "asn list \<Rightarrow> bool" where
  "HasScrubbingCenter [] = False"
| "HasScrubbingCenter (a # as) = (if IsScrubbing a then True else HasScrubbingCenter as)"

fun GetBlackholeCommunities :: "string list \<Rightarrow> string list" where
  "GetBlackholeCommunities [] = []"
| "GetBlackholeCommunities (c # cs) =
     (if IsBlackholeCommunity c then c # GetBlackholeCommunities cs
      else GetBlackholeCommunities cs)"

section \<open>Blackhole detector (pkg/detector/blackhole.go)\<close>

text \<open>Two's-complement wrap-around of Go's 64-bit \<open>int\<close>.\<close>

definition wrap64 :: "int \<Rightarrow> int" where
  "wrap64 x = (x + 2 ^ 63) mod 2 ^ 64 - 2 ^ 63"

text \<open>
  The inner loop of \<open>getPrefixLength\<close>: \<open>length = length*10 + int(prefix[j]-'0')\<close>. The
  subtraction is on bytes and wraps modulo 256 before the conversion to \<open>int\<close>.
\<close>

fun accumulate_length :: "int \<Rightarrow> string \<Rightarrow> int" where
  "accumulate_length len [] = len"
| "accumulate_length len (c # cs) =
     accumulate_length (wrap64 (len * 10 + (of_char c - 48) mod 256)) cs"

text \<open>
  The outer loop scans \<open>i\<close> from \<open>len(prefix) - 1\<close> down to 0; the argument is \<open>i + 1\<close>.
\<close>

fun scan_slash :: "string \<Rightarrow> nat \<Rightarrow> int" where
  "scan_slash prefix 0 = 32"
| "scan_slash prefix (Suc i) =
     (if prefix ! i = CHR ''/'' then accumulate_length 0 (drop (Suc i) prefix)
      else scan_slash prefix i)"

definition getPrefixLength :: "string \<Rightarrow> int" where
  "getPrefixLength prefix = scan_slash prefix (length prefix)"

text \<open>
  \<open>Process\<close> either returns early or builds one event and offers it to the channel.
  \<open>BlackholeDetector_event\<close> is the event built (\<open>None\<close> on an early return).
\<close>

definition BlackholeDetector_event :: "go_time \<Rightarrow> BGPUpdate \<Rightarrow> BGPEvent option" where
  "BlackholeDetector_event now update =
    (if \<not> Announcement update then None
     else if \<not> HasBlackholeCommunity (Communities update) then None
     else
       let blackholeCommunities = GetBlackholeCommunities (Communities update);
           prefixLen = getPrefixLength (Prefix update);
           isHostRoute = (prefixLen = 32 \<or> prefixLen = 128);
           confidence = (if isHostRoute then 0.95 else if prefixLen \<ge> 24 then 0.85 else 0.6);
           severity = (if isHostRoute then SeverityMedium
                       else if prefixLen < 16 then SeverityHigh else SeverityMedium)
       in Some (zero_event\<lparr>
            EventType := EventTypeBlackhole,
            Severity := severity,
            EventCategory := CategoryDefense,
            AffectedASN := OriginASN update,
            AffectedPrefix := Prefix update,
            DetectedAt := now,
            IsActive := True,
            Details := map_of
              [(''communities'', DStrings (Communities update)),
               (''blackhole_communities'', DStrings blackholeCommunities),
               (''as_path'', DUint32s (ASPath update)),
               (''peer_asn'', DUint32 (PeerASN update)),
               (''collector'', DString (Collector update)),
               (''signal'', DString ''blackhole_community''),
               (''is_host_route'', DBool isHostRoute),
               (''confidence'', DFloat64 confidence)]\<rparr>))"

definition BlackholeDetector_Process ::
    "BGPEvent chan \<Rightarrow> go_time \<Rightarrow> BGPUpdate \<Rightarrow> BGPEvent chan" where
  "BlackholeDetector_Process events now update =
    (case BlackholeDetector_event now update of
       None \<Rightarrow> events
     | Some event \<Rightarrow> try_send events event)"

section \<open>Leak detector\<close>

text \<open>
  \<open>findLeakPattern\<close> runs \<open>for i := 0; i < len(asPath)-2; i++\<close>; the lengths are
  signed, so a path shorter than two elements gives a negative bound and no iteration.
\<close>

function findLeakPattern_from :: "asn list \<Rightarrow> nat \<Rightarrow> asn \<times> asn \<times> asn" where
  "findLeakPattern_from asPath i =
     (if int i < int (length asPath) - 2 then
        (if IsTier1 (asPath ! i) \<and> IsTier1 (asPath ! (i + 2)) \<and> \<not> IsTier1 (asPath ! (i + 1))
         then (if \<not> IsScrubbing (asPath ! (i + 1))
               then (asPath ! (i + 1), asPath ! i, asPath ! (i + 2))
               else findLeakPattern_from asPath (i + 1))
         else findLeakPattern_from asPath (i + 1))
      else (0, 0, 0))"
  by pat_completeness auto
termination
  by (relation "measure (\<lambda>(asPath, i). length asPath - i)") auto

declare findLeakPattern_from.simps [simp del]

definition findLeakPattern :: "asn list \<Rightarrow> asn \<times> asn \<times> asn" where
  "findLeakPattern asPath = findLeakPattern_from asPath 0"

definition LeakDetector_event :: "go_time \<Rightarrow> BGPUpdate \<Rightarrow> BGPEvent option" where
  "LeakDetector_event now update =
    (if \<not> Announcement update \<or> length (ASPath update) < 3 then None
     else
       (case findLeakPattern (ASPath update) of
          (leakASN, tier1Before, tier1After) \<Rightarrow>
            if leakASN = 0 then None
            else Some (zero_event\<lparr>
              EventType := EventTypeLeak,
              Severity := SeverityHigh,
              EventCategory := CategoryMisconfiguration,
              AffectedASN := leakASN,
              AffectedPrefix := Prefix update,
              DetectedAt := now,
              IsActive := True,
              Details := map_of
                [(''pattern'', DString ''tier1_transit_leak''),
                 (''leaking_asn'', DUint32 leakASN),
                 (''upstream_tier1'', DUint32 tier1Before),
                 (''downstream_tier1'', DUint32 tier1After),
                 (''as_path'', DUint32s (ASPath update)),
                 (''peer_asn'', DUint32 (PeerASN update)),
                 (''collector'', DString (Collector update)),
                 (''confidence'', DFloat64 0.85)]\<rparr>)))"

definition LeakDetector_Process ::
    "BGPEvent chan \<Rightarrow> go_time \<Rightarrow> BGPUpdate \<Rightarrow> BGPEvent chan" where
  "LeakDetector_Process events now update =
    (case LeakDetector_event now update of
       None \<Rightarrow> events
     | Some event \<Rightarrow> try_send events event)"

subsection \<open>The window condition of the leak pattern\<close>

text \<open>
  The condition under which the specification reports a leak at index \<open>i\<close>: Tier-1 on
  both sides of a middle element that is neither Tier-1 nor a scrubbing centre.
\<close>

definition leak_window :: "asn list \<Rightarrow> nat \<Rightarrow> bool" where
  "leak_window asPath i \<longleftrightarrow>
     IsTier1 (asPath ! i) \<and> IsTier1 (asPath ! (i + 2)) \<and>
     \<not> IsTier1 (asPath ! (i + 1)) \<and> \<not> IsScrubbing (asPath ! (i + 1))"

section \<open>Hijack detector (pkg/detector/hijack.go)\<close>

subsection \<open>The external key-value store, as the detector's calls see it\<close>

text \<open>
  The store holds scalar values and sets under string keys, each key with an optional
  expiry instant; a key past its expiry does not exist. \<open>reachable\<close> says whether the
  round trips of the current call succeed: an unreachable store answers every read
  with an error and ignores every write. Scalar values are the numbers that
  \<open>Get(...).Uint64()\<close> parses; \<open>Set\<close> writes a \<open>uint32\<close> in decimal.
\<close>

record redis_Client =
  reachable :: bool
  scalars :: "string \<rightharpoonup> 64 word"
  members :: "string \<rightharpoonup> asn set"
  expiry :: "string \<rightharpoonup> go_time"

definition live :: "redis_Client \<Rightarrow> go_time \<Rightarrow> string \<Rightarrow> bool" where
  "live r now key = (case expiry r key of None \<Rightarrow> True | Some e \<Rightarrow> now < e)"

definition redis_Get :: "redis_Client \<Rightarrow> go_time \<Rightarrow> string \<Rightarrow> 64 word option" where
  "redis_Get r now key = (if reachable r \<and> live r now key then scalars r key else None)"

definition redis_Set ::
    "redis_Client \<Rightarrow> go_time \<Rightarrow> string \<Rightarrow> 64 word \<Rightarrow> int \<Rightarrow> redis_Client" where
  "redis_Set r now key v ttl =
     (if reachable r
      then r\<lparr>scalars := (scalars r)(key \<mapsto> v), expiry := (expiry r)(key \<mapsto> now + ttl)\<rparr>
      else r)"

definition redis_SIsMember :: "redis_Client \<Rightarrow> go_time \<Rightarrow> string \<Rightarrow> asn \<Rightarrow> bool" where
  "redis_SIsMember r now key m =
     (reachable r \<and> live r now key \<and>
      (case members r key of None \<Rightarrow> False | Some s \<Rightarrow> m \<in> s))"

definition redis_SAdd :: "redis_Client \<Rightarrow> go_time \<Rightarrow> string \<Rightarrow> asn \<Rightarrow> redis_Client" where
  "redis_SAdd r now key m =
     (if \<not> reachable r then r
      else if live r now key
      then r\<lparr>members := (members r)(key \<mapsto>
                 insert m (case members r key of None \<Rightarrow> {} | Some s \<Rightarrow> s))\<rparr>
      else r\<lparr>members := (members r)(key \<mapsto> {m}), expiry := (expiry r)(key := None)\<rparr>)"

definition redis_Expire :: "redis_Client \<Rightarrow> go_time \<Rightarrow> string \<Rightarrow> int \<Rightarrow> redis_Client" where
  "redis_Expire r now key ttl =
     (if reachable r \<and> live r now key \<and> (scalars r key \<noteq> None \<or> members r key \<noteq> None)
      then r\<lparr>expiry := (expiry r)(key \<mapsto> now + ttl)\<rparr>
      else r)"

subsection \<open>The detector\<close>

definition Minute :: int where "Minute = 60 * 1000000000"
definition Hour :: int where "Hour = 60 * Minute"

record HijackDetector =
  events :: "BGPEvent chan"
  redis :: "redis_Client option"
  cache :: "string \<rightharpoonup> asn"
  cacheTTL :: int
  cacheTime :: "string \<rightharpoonup> go_time"

text \<open>The keys the detector builds: \<open>"bgp:prefix:" + prefix + ":origin"\<close> and \<open>":origins"\<close>.\<close>

definition origin_key :: "string \<Rightarrow> string" where
  "origin_key prefix = ''bgp:prefix:'' @ prefix @ '':origin''"

definition origins_key :: "string \<Rightarrow> string" where
  "origins_key prefix = ''bgp:prefix:'' @ prefix @ '':origins''"

definition NewHijackDetector :: "BGPEvent chan \<Rightarrow> redis_Client option \<Rightarrow> HijackDetector" where
  "NewHijackDetector ev redisClient =
     \<lparr>events = ev, redis = redisClient, cache = Map.empty, cacheTTL = 5 * Minute,
      cacheTime = Map.empty\<rparr>"

text \<open>The local cache answers when both entries exist and the stamp is younger than the TTL.\<close>

definition cache_hit :: "HijackDetector \<Rightarrow> go_time \<Rightarrow> string \<Rightarrow> asn option" where
  "cache_hit d now prefix =
     (case cache d prefix of
        None \<Rightarrow> None
      | Some val \<Rightarrow>
          (case cacheTime d prefix of
             None \<Rightarrow> None
           | Some t \<Rightarrow> if now - t < cacheTTL d then Some val else None))"

definition getKnownOrigin ::
    "HijackDetector \<Rightarrow> go_time \<Rightarrow> string \<Rightarrow> asn \<times> HijackDetector" where
  "getKnownOrigin d now prefix =
     (case cache_hit d now prefix of
        Some val \<Rightarrow> (val, d)
      | None \<Rightarrow>
          (case redis d of
             None \<Rightarrow> (0, d)
           | Some r \<Rightarrow>
               (case redis_Get r now (origin_key prefix) of
                  Some val \<Rightarrow>
                    (let origin = (ucast val :: asn)
                     in (origin, d\<lparr>cache := (cache d)(prefix \<mapsto> origin),
                                    cacheTime := (cacheTime d)(prefix \<mapsto> now)\<rparr>))
                | None \<Rightarrow> (0, d))))"

definition setKnownOrigin ::
    "HijackDetector \<Rightarrow> go_time \<Rightarrow> string \<Rightarrow> asn \<Rightarrow> HijackDetector" where
  "setKnownOrigin d now prefix origin =
     d\<lparr>cache := (cache d)(prefix \<mapsto> origin),
       cacheTime := (cacheTime d)(prefix \<mapsto> now),
       redis := (case redis d of
                   None \<Rightarrow> None
                 | Some r \<Rightarrow> Some (redis_Set r now (origin_key prefix)
                                     (ucast origin) (48 * Hour)))\<rparr>"

definition isKnownMOAS :: "HijackDetector \<Rightarrow> go_time \<Rightarrow> string \<Rightarrow> asn \<Rightarrow> bool" where
  "isKnownMOAS d now prefix origin =
     (case redis d of
        None \<Rightarrow> False
      | Some r \<Rightarrow> redis_SIsMember r now (origins_key prefix) origin)"

definition addKnownMOAS ::
    "HijackDetector \<Rightarrow> go_time \<Rightarrow> string \<Rightarrow> asn \<Rightarrow> HijackDetector" where
  "addKnownMOAS d now prefix origin =
     (case redis d of
        None \<Rightarrow> d
      | Some r \<Rightarrow>
          (let key = origins_key prefix
           in d\<lparr>redis := Some (redis_Expire (redis_SAdd r now key origin) now key (48 * Hour))\<rparr>))"

text \<open>The event built once the origin change is established.\<close>

definition hijack_event :: "go_time \<Rightarrow> BGPUpdate \<Rightarrow> asn \<Rightarrow> BGPEvent" where
  "hijack_event now update knownOrigin =
    (let severity =
           (if IsTier1 knownOrigin \<or> IsTier1 (OriginASN update) then SeverityCritical
            else if getPrefixLength (Prefix update) < 16 then SeverityHigh
            else SeverityMedium);
         confidence =
           (if severity = SeverityCritical then 0.9
            else if severity = SeverityHigh then 0.8 else 0.7);
         flags =
           (if severity = SeverityCritical then [''origin_change'', ''tier1_involved'']
            else if severity = SeverityHigh then [''origin_change'', ''large_prefix'']
            else [''origin_change''])
     in zero_event\<lparr>
          EventType := EventTypeHijack,
          Severity := severity,
          EventCategory := CategoryAttack,
          AffectedASN := knownOrigin,
          AffectedPrefix := Prefix update,
          DetectedAt := now,
          IsActive := True,
          Details := map_of
            [(''original_origin'', DUint32 knownOrigin),
             (''hijacking_asn'', DUint32 (OriginASN update)),
             (''as_path'', DUint32s (ASPath update)),
             (''peer_asn'', DUint32 (PeerASN update)),
             (''collector'', DString (Collector update)),
             (''flags'', DStrings flags),
             (''confidence'', DFloat64 confidence)]\<rparr>)"

definition HijackDetector_Process ::
    "HijackDetector \<Rightarrow> go_time \<Rightarrow> BGPUpdate \<Rightarrow> HijackDetector" where
  "HijackDetector_Process d now update =
    (if \<not> Announcement update \<or> OriginASN update = 0 then d
     else if HasScrubbingCenter (ASPath update) then d
     else
       (case getKnownOrigin d now (Prefix update) of
          (knownOrigin, d1) \<Rightarrow>
            if knownOrigin = 0
            then setKnownOrigin d1 now (Prefix update) (OriginASN update)
            else if knownOrigin = OriginASN update then d1
            else if isKnownMOAS d1 now (Prefix update) (OriginASN update) then d1
            else
              addKnownMOAS
                (d1\<lparr>events := try_send (events d1) (hijack_event now update knownOrigin)\<rparr>)
                now (Prefix update) (OriginASN update)))"

section \<open>Update parser (pkg/rislive/parser.go)\<close>

subsection \<open>JSON values and the decoding of \<open>encoding/json\<close>\<close>

text \<open>
  A \<open>json.RawMessage\<close> is modelled by the JSON value its bytes denote. An integer
  literal keeps its sign apart from its magnitude (\<open>-0\<close> is not \<open>0\<close> to the decoder); a
  number literal with a fraction or an exponent is \<open>JFraction\<close>: no decoding target used
  by the parser accepts it, so its value is not kept.
\<close>

datatype json =
    JNull
  | JBool bool
  | JNumber bool nat
  | JFraction
  | JString string
  | JArray "json list"
  | JObject "(string \<times> json) list"

text \<open>
  \<open>json.Unmarshal\<close> into a fresh variable of each target type the parser uses. \<open>None\<close>
  is a non-nil error. JSON \<open>null\<close> is accepted by every target and leaves it at its
  zero value.
\<close>

fun unmarshal_uint32 :: "json \<Rightarrow> asn option" where
  "unmarshal_uint32 JNull = Some 0"
| "unmarshal_uint32 (JNumber neg n) =
     (if \<not> neg \<and> n < 2 ^ 32 then Some (of_nat n) else None)"
| "unmarshal_uint32 _ = None"

fun unmarshal_string :: "json \<Rightarrow> string option" where
  "unmarshal_string JNull = Some []"
| "unmarshal_string (JString s) = Some s"
| "unmarshal_string _ = None"

text \<open>Every element must decode; one that does not makes the whole call an error.\<close>

fun unmarshal_elements :: "json list \<Rightarrow> asn list option" where
  "unmarshal_elements [] = Some []"
| "unmarshal_elements (x # xs) =
     (case unmarshal_uint32 x of
        None \<Rightarrow> None
      | Some n \<Rightarrow> (case unmarshal_elements xs of None \<Rightarrow> None | Some ns \<Rightarrow> Some (n # ns)))"

fun unmarshal_uint32_slice :: "json \<Rightarrow> asn list option" where
  "unmarshal_uint32_slice JNull = Some []"
| "unmarshal_uint32_slice (JArray xs) = unmarshal_elements xs"
| "unmarshal_uint32_slice _ = None"

fun unmarshal_raw_slice :: "json \<Rightarrow> json list option" where
  "unmarshal_raw_slice JNull = Some []"
| "unmarshal_raw_slice (JArray xs) = Some xs"
| "unmarshal_raw_slice _ = None"

subsection \<open>\<open>strconv.ParseUint(s, 10, 32)\<close> and \<open>strconv.FormatUint(n, 10)\<close>\<close>

datatype num_error = ErrSyntax | ErrRange

text \<open>
  The digit loop of \<open>ParseUint\<close>: a byte that is not a decimal digit stops with a syntax
  error and value 0; a running value above \<open>2^32 - 1\<close> stops at once with a range error
  and that maximum, before the rest of the string is looked at.
\<close>

fun parse_digits :: "nat \<Rightarrow> string \<Rightarrow> nat \<times> num_error option" where
  "parse_digits n [] = (n, None)"
| "parse_digits n (c # cs) =
     (if \<not> (48 \<le> (of_char c :: nat) \<and> (of_char c :: nat) \<le> 57) then (0, Some ErrSyntax)
      else if n * 10 + (of_char c - 48) > 2 ^ 32 - 1 then (2 ^ 32 - 1, Some ErrRange)
      else parse_digits (n * 10 + (of_char c - 48)) cs)"

definition ParseUint32 :: "string \<Rightarrow> nat \<times> num_error option" where
  "ParseUint32 s = (if s = [] then (0, Some ErrSyntax) else parse_digits 0 s)"

function FormatUint :: "nat \<Rightarrow> string" where
  "FormatUint n =
     (if n < 10 then [''0123456789'' ! n]
      else FormatUint (n div 10) @ [''0123456789'' ! (n mod 10)])"
  by pat_completeness auto
termination
  by (relation "measure id") auto

declare FormatUint.simps [simp del]

subsection \<open>The parser\<close>

record RISAnnouncement =
  prefixes :: "string list"

text \<open>
  \<open>RISUpdateData\<close> after \<open>json.Unmarshal(msg.Data, &updateData)\<close>. The raw fields are
  \<open>None\<close> when the key is absent (a nil \<open>RawMessage\<close>); \<open>community\<close> is \<open>None\<close> for a nil
  slice. The \<open>float64\<close> timestamp is idealised as a real number.
\<close>

record RISUpdateData =
  timestamp :: real
  peer_asn :: "json option"
  path :: "json option"
  announcements :: "RISAnnouncement list"
  withdrawals :: "string list"
  community :: "json list option"

text \<open>
  A text frame as the two \<open>json.Unmarshal\<close> calls of \<open>ParseMessage\<close> see it: not a JSON
  envelope at all, or an envelope with its \<open>type\<close> and the outcome of decoding its
  \<open>data\<close> into \<open>RISUpdateData\<close> (\<open>None\<close> when that decoding returns an error).
\<close>

datatype frame = NotJSON | Message string "RISUpdateData option"

datatype parse_error = ErrUnmarshalMessage | ErrUnmarshalUpdateData | ErrParseASPath

definition parseASN :: "json option \<Rightarrow> asn" where
  "parseASN data =
     (case data of
        None \<Rightarrow> 0
      | Some d \<Rightarrow>
          (case unmarshal_uint32 d of
             Some num \<Rightarrow> num
           | None \<Rightarrow>
               (case unmarshal_string d of
                  Some str \<Rightarrow> of_nat (fst (ParseUint32 str))
                | None \<Rightarrow> 0)))"

text \<open>The loop over the mixed array: a number, else a group of numbers, else skipped.\<close>

fun flatten_mixed :: "json list \<Rightarrow> asn list" where
  "flatten_mixed [] = []"
| "flatten_mixed (elem # rest) =
     (case unmarshal_uint32 elem of
        Some num \<Rightarrow> num # flatten_mixed rest
      | None \<Rightarrow>
          (case unmarshal_uint32_slice elem of
             Some nums \<Rightarrow> nums @ flatten_mixed rest
           | None \<Rightarrow> flatten_mixed rest))"

definition parseASPath :: "json option \<Rightarrow> parse_error + asn list" where
  "parseASPath data =
     (case data of
        None \<Rightarrow> Inr []
      | Some d \<Rightarrow>
          (case unmarshal_uint32_slice d of
             Some simpleArray \<Rightarrow> Inr simpleArray
           | None \<Rightarrow>
               (case unmarshal_raw_slice d of
                  None \<Rightarrow> Inl ErrParseASPath
                | Some mixedArray \<Rightarrow> Inr (flatten_mixed mixedArray))))"

fun render_communities :: "json list \<Rightarrow> string list" where
  "render_communities [] = []"
| "render_communities (elem # rest) =
     (case unmarshal_uint32_slice elem of
        Some [a, b] \<Rightarrow>
          (FormatUint (unat a) @ '':'' @ FormatUint (unat b)) # render_communities rest
      | _ \<Rightarrow>
          (case unmarshal_string elem of
             Some str \<Rightarrow> str # render_communities rest
           | None \<Rightarrow> render_communities rest))"

definition parseCommunities :: "json list option \<Rightarrow> string list" where
  "parseCommunities data = (case data of None \<Rightarrow> [] | Some elems \<Rightarrow> render_communities elems)"

text \<open>
  The nested loop over announcements and their prefixes returns at the first prefix it
  meets.
\<close>

fun first_prefix :: "RISAnnouncement list \<Rightarrow> string option" where
  "first_prefix [] = None"
| "first_prefix (ann # anns) =
     (case prefixes ann of [] \<Rightarrow> first_prefix anns | prefix # _ \<Rightarrow> Some prefix)"

text \<open>Go's conversion \<open>int64(f)\<close> truncates towards zero.\<close>

definition go_trunc :: "real \<Rightarrow> int" where
  "go_trunc x = (if 0 \<le> x then \<lfloor>x\<rfloor> else \<lceil>x\<rceil>)"

definition ParseMessage :: "frame \<Rightarrow> string \<Rightarrow> parse_error + BGPUpdate option" where
  "ParseMessage fr collector =
     (case fr of
        NotJSON \<Rightarrow> Inl ErrUnmarshalMessage
      | Message ty data \<Rightarrow>
          if ty \<noteq> ''ris_message'' then Inr None
          else
            (case data of
               None \<Rightarrow> Inl ErrUnmarshalUpdateData
             | Some updateData \<Rightarrow>
                 (let peerASN = parseASN (peer_asn updateData)
                  in case parseASPath (path updateData) of
                       Inl err \<Rightarrow> Inl ErrParseASPath
                     | Inr asPath \<Rightarrow>
                         (let originASN = (if length asPath > 0 then last asPath else 0);
                              communities = parseCommunities (community updateData);
                              ts = (go_trunc (timestamp updateData),
                                    go_trunc ((timestamp updateData
                                       - of_int (go_trunc (timestamp updateData))) * 1000000000))
                          in case first_prefix (announcements updateData) of
                               Some prefix \<Rightarrow>
                                 Inr (Some \<lparr>Timestamp = ts, PeerASN = peerASN,
                                   Prefix = prefix, ASPath = asPath, OriginASN = originASN,
                                   Communities = communities, Announcement = True,
                                   Collector = collector\<rparr>)
                             | None \<Rightarrow>
                                 (case withdrawals updateData of
                                    prefix # _ \<Rightarrow>
                                      Inr (Some \<lparr>Timestamp = ts, PeerASN = peerASN,
                                        Prefix = prefix, ASPath = [], OriginASN = 0,
                                        Communities = [], Announcement = False,
                                        Collector = collector\<rparr>)
                                  | [] \<Rightarrow> Inr None)))))"

section \<open>ASN-to-country resolver (package database)\<close>

subsection \<open>String helpers of the standard library, on bytes\<close>

text \<open>
  \<open>strings.TrimSpace\<close> and \<open>strings.ToUpper\<close> restricted to ASCII: the white space
  trimmed is tab, line feed, vertical tab, form feed, carriage return and space, and
  only the letters \<open>a\<close> to \<open>z\<close> are mapped. Bytes from \<open>0x80\<close> on are left as they are.
\<close>

definition is_space :: "char \<Rightarrow> bool" where
  "is_space c \<longleftrightarrow> (of_char c :: nat) \<in> {9, 10, 11, 12, 13, 32}"

definition TrimSpace :: "string \<Rightarrow> string" where
  "TrimSpace s = rev (dropWhile is_space (rev (dropWhile is_space s)))"

definition upper_byte :: "char \<Rightarrow> char" where
  "upper_byte c =
     (if 97 \<le> (of_char c :: nat) \<and> (of_char c :: nat) \<le> 122
      then char_of ((of_char c :: nat) - 32) else c)"

definition ToUpper :: "string \<Rightarrow> string" where
  "ToUpper s = map upper_byte s"

text \<open>
  \<open>strconv.Atoi\<close>: an optional sign, then at least one decimal digit and nothing else;
  a value outside the 64-bit \<open>int\<close> is an error.
\<close>

definition is_digit :: "char \<Rightarrow> bool" where
  "is_digit c \<longleftrightarrow> 48 \<le> (of_char c :: nat) \<and> (of_char c :: nat) \<le> 57"

definition digits_value :: "string \<Rightarrow> nat" where
  "digits_value ds = foldl (\<lambda>n c. n * 10 + (of_char c - 48)) 0 ds"

definition Atoi :: "string \<Rightarrow> int option" where
  "Atoi s =
     (let neg = (s \<noteq> [] \<and> hd s = CHR ''-'');
          ds = (if s \<noteq> [] \<and> (hd s = CHR ''-'' \<or> hd s = CHR ''+'') then tl s else s);
          v = (if neg then - int (digits_value ds) else int (digits_value ds))
      in if ds = [] \<or> \<not> list_all is_digit ds then None
         else if - (2 ^ 63) \<le> v \<and> v < 2 ^ 63 then Some v else None)"

subsection \<open>\<open>FileResolver.load\<close>\<close>

text \<open>
  The file as the successive calls of \<open>reader.Read()\<close> return it, up to end of file: a
  record with its fields, or a parse error. The reader expects of every record the
  number of fields of the first one and returns any other with \<open>ErrFieldCount\<close>.
\<close>

datatype csv_read = Record "string list" | ParseError

datatype load_error = ReadError

fun load_records :: "nat \<Rightarrow> (int \<rightharpoonup> string) \<Rightarrow> csv_read list \<Rightarrow> (int \<rightharpoonup> string)" where
  "load_records n mapping [] = mapping"
| "load_records n mapping (ParseError # rest) = load_records n mapping rest"
| "load_records n mapping (Record record # rest) =
     (if length record \<noteq> n then load_records n mapping rest
      else if length record < 2 then load_records n mapping rest
      else
        (case Atoi (TrimSpace (record ! 0)) of
           None \<Rightarrow> load_records n mapping rest
         | Some asn \<Rightarrow>
             (let country = ToUpper (TrimSpace (record ! 1))
              in if length country = 2
                 then load_records n (mapping(asn \<mapsto> country)) rest
                 else load_records n mapping rest)))"

definition load :: "csv_read list \<Rightarrow> load_error + (int \<rightharpoonup> string)" where
  "load reads =
     (case reads of
        [] \<Rightarrow> Inl ReadError
      | ParseError # rest \<Rightarrow> Inl ReadError
      | Record header # rest \<Rightarrow>
          (let mapping =
                 (if length header \<ge> 2
                  then (case Atoi (TrimSpace (header ! 0)) of
                          Some asn \<Rightarrow> Map.empty(asn \<mapsto> ToUpper (TrimSpace (header ! 1)))
                        | None \<Rightarrow> Map.empty)
                  else Map.empty)
           in Inr (load_records (length header) mapping rest)))"

subsection \<open>The resolvers\<close>

datatype CountryResolver =
    NullResolver
  | FileResolver "int \<rightharpoonup> string"
  | DatabaseResolver "int \<rightharpoonup> string"

text \<open>Indexing the map with an absent key yields the empty string.\<close>

definition lookup_country :: "(int \<rightharpoonup> string) \<Rightarrow> int \<Rightarrow> string" where
  "lookup_country mapping a = (case mapping a of None \<Rightarrow> [] | Some country \<Rightarrow> country)"

fun first_known :: "(int \<rightharpoonup> string) \<Rightarrow> int list \<Rightarrow> string" where
  "first_known mapping [] = []"
| "first_known mapping (a # as) =
     (case mapping a of Some country \<Rightarrow> country | None \<Rightarrow> first_known mapping as)"

fun Resolve :: "CountryResolver \<Rightarrow> asn \<Rightarrow> string" where
  "Resolve NullResolver a = []"
| "Resolve (FileResolver mapping) a = lookup_country mapping (uint a)"
| "Resolve (DatabaseResolver mapping) a = lookup_country mapping (uint a)"

fun ResolveFromPath :: "CountryResolver \<Rightarrow> int list \<Rightarrow> string" where
  "ResolveFromPath NullResolver asPath = []"
| "ResolveFromPath (FileResolver mapping) asPath = first_known mapping asPath"
| "ResolveFromPath (DatabaseResolver mapping) asPath = first_known mapping asPath"

section \<open>Event sink (the event goroutine of \<open>main\<close>)\<close>

text \<open>
  The conversion loop over \<open>[]interface{}\<close>: a \<open>float64\<close> is truncated, an \<open>int\<close> is
  taken, anything else is skipped.
\<close>

fun intPath :: "dyn list \<Rightarrow> int list" where
  "intPath [] = []"
| "intPath (v # vs) =
     (case v of
        DFloat64 f \<Rightarrow> go_trunc f # intPath vs
      | DInt i \<Rightarrow> i # intPath vs
      | _ \<Rightarrow> intPath vs)"

text \<open>
  The country-code part of the loop body. The type assertion
  \<open>event.Details["as_path"].([]interface{})\<close> holds only for a value of exactly that
  dynamic type.
\<close>

definition resolve_country :: "CountryResolver \<Rightarrow> BGPEvent \<Rightarrow> BGPEvent" where
  "resolve_country resolver event =
     (let e2 =
        (if CountryCode event = [] then
           (let e1 = (if AffectedASN event > 0
                      then event\<lparr>CountryCode := Resolve resolver (AffectedASN event)\<rparr>
                      else event)
            in if CountryCode e1 = [] then
                 (case Details e1 ''as_path'' of
                    Some (DIfaces asPath) \<Rightarrow>
                      e1\<lparr>CountryCode := ResolveFromPath resolver (intPath asPath)\<rparr>
                  | _ \<Rightarrow> e1)
               else e1)
         else event)
      in if CountryCode e2 = [] then e2\<lparr>CountryCode := ''XX''\<rparr> else e2)"

section \<open>Example inputs\<close>

definition example_update :: BGPUpdate where
  "example_update = \<lparr>Timestamp = (0, 0), PeerASN = 6939, Prefix = ''192.0.2.1/32'',
     ASPath = [6939, 64500], OriginASN = 64500, Communities = [''3356:9999''],
     Announcement = True, Collector = ''rrc00''\<rparr>"

definition example_chan :: "BGPEvent chan" where
  "example_chan = \<lparr>buf = [], cap = 10000\<rparr>"

definition leak_example :: BGPUpdate where
  "leak_example = example_update\<lparr>ASPath := [64496, 6939, 65001, 3356, 64500]\<rparr>"

definition leak_zero_example :: BGPUpdate where
  "leak_zero_example = example_update\<lparr>ASPath := [6939, 0, 3356, 65001, 174]\<rparr>"

definition hijack_store :: redis_Client where
  "hijack_store = \<lparr>reachable = True, scalars = Map.empty, members = Map.empty,
     expiry = Map.empty\<rparr>"

definition hijack_uA :: BGPUpdate where
  "hijack_uA = \<lparr>Timestamp = (0, 0), PeerASN = 64496, Prefix = ''1.2.3.0/24'',
     ASPath = [64496, 64500], OriginASN = 64500, Communities = [],
     Announcement = True, Collector = ''rrc00''\<rparr>"

definition hijack_uB :: BGPUpdate where
  "hijack_uB = hijack_uA\<lparr>ASPath := [64496, 64501], OriginASN := 64501\<rparr>"

definition hijack_d0 :: HijackDetector where
  "hijack_d0 = NewHijackDetector example_chan (Some hijack_store)"

definition hijack_d0_local :: HijackDetector where
  "hijack_d0_local = NewHijackDetector example_chan None"

definition noslash_update :: BGPUpdate where
  "noslash_update = example_update\<lparr>Prefix := ''192.0.2.1''\<rparr>"

definition example_data :: RISUpdateData where
  "example_data = \<lparr>timestamp = 1705320000, peer_asn = Some (JNumber False 6939),
     path = Some (JArray [JArray [JNumber False 174],
                          JArray [JNumber False 3356, JNumber False 7018],
                          JNumber False 13335]),
     announcements = [\<lparr>prefixes = [''1.1.1.0/24'']\<rparr>], withdrawals = [],
     community = Some [JArray [JNumber False 65535, JNumber False 666], JString ''no-export'']\<rparr>"

definition empty_announcement_data :: RISUpdateData where
  "empty_announcement_data = \<lparr>timestamp = 0, peer_asn = None, path = None,
     announcements = [\<lparr>prefixes = []\<rparr>], withdrawals = [''192.0.2.0/24''],
     community = None\<rparr>"

definition bad_path_data :: RISUpdateData where
  "bad_path_data = \<lparr>timestamp = 0, peer_asn = None, path = Some (JString ''174 3356''),
     announcements = [\<lparr>prefixes = [''1.1.1.0/24'']\<rparr>], withdrawals = [],
     community = None\<rparr>"

definition sink_resolver :: CountryResolver where
  "sink_resolver = FileResolver [6939 \<mapsto> ''US'']"

definition sink_update :: BGPUpdate where
  "sink_update = \<lparr>Timestamp = (0, 0), PeerASN = 6939, Prefix = ''1.2.3.0/24'',
     ASPath = [6939, 64501], OriginASN = 64501, Communities = [],
     Announcement = True, Collector = ''rrc00''\<rparr>"

section \<open>Verified properties\<close>

lemmas model_consts =
  SeverityLow_def SeverityMedium_def SeverityHigh_def SeverityCritical_def
  EventTypeHijack_def EventTypeLeak_def EventTypeBlackhole_def
  CategoryAttack_def CategoryDefense_def CategoryMisconfiguration_def

subsection \<open>Reference tables and the channel\<close>

lemma known_foldl:
  "foldl (\<lambda>m (a, community). m(community \<mapsto> True)) m0 xs k =
     (if k \<in> snd ` set xs then Some True else m0 k)"
  by (induction xs arbitrary: m0) (auto simp: image_iff)

lemma IsBlackholeCommunity_iff:
  "IsBlackholeCommunity c \<longleftrightarrow>
     c \<in> insert RFC7999Blackhole (snd ` set ProviderBlackholeCommunities)"
  unfolding IsBlackholeCommunity_def KnownBlackholeCommunities_def known_foldl
  by (auto split: option.splits)

lemma HasBlackholeCommunity_iff:
  "HasBlackholeCommunity cs \<longleftrightarrow> (\<exists>c \<in> set cs. IsBlackholeCommunity c)"
  by (induction cs) auto

lemma HasScrubbingCenter_iff:
  "HasScrubbingCenter as \<longleftrightarrow> (\<exists>a \<in> set as. IsScrubbing a)"
  by (induction as) auto

lemma try_send_room: "length (buf ch) < cap ch \<Longrightarrow> buf (try_send ch e) = buf ch @ [e]"
  by (simp add: try_send_def)

lemma try_send_changes: "length (buf ch) < cap ch \<Longrightarrow> try_send ch e \<noteq> ch"
proof
  assume "length (buf ch) < cap ch" "try_send ch e = ch"
  then have "buf (ch\<lparr>buf := buf ch @ [e]\<rparr>) = buf ch" by (simp add: try_send_def)
  then show False by simp
qed

subsection \<open>Blackhole detector\<close>


lemma blackhole_event_iff:
  "(\<exists>e. BlackholeDetector_event now u = Some e) \<longleftrightarrow>
     (Announcement u \<and>
      (\<exists>c \<in> set (Communities u).
         c \<in> insert RFC7999Blackhole (snd ` set ProviderBlackholeCommunities)))"
  by (simp add: BlackholeDetector_event_def Let_def HasBlackholeCommunity_iff
      IsBlackholeCommunity_iff del: insert_iff)



text \<open>
  C2. The blackhole detector builds an event exactly when the update is an announcement
  and one of its community strings is, literally, the RFC 7999 tag or one of the
  provider tags; with room in the channel that is exactly when the channel changes.
  The provider tags include \<open>3356:9999\<close> and \<open>1299:999\<close>; \<open>6939:1234\<close> is not a member
  although \<open>6939:666\<close> is, so an update carrying only \<open>6939:1234\<close> leaves the channel
  as it was, and so does every withdrawal.
\<close>

theorem blackhole_fires_iff_literal_member:
  "((\<exists>e. BlackholeDetector_event now u = Some e) \<longleftrightarrow>
      (Announcement u \<and>
       (\<exists>c \<in> set (Communities u).
          c \<in> insert RFC7999Blackhole (snd ` set ProviderBlackholeCommunities)))) \<and>
   (length (buf ch) < cap ch \<longrightarrow>
      ((BlackholeDetector_Process ch now u \<noteq> ch) \<longleftrightarrow>
       (Announcement u \<and>
        (\<exists>c \<in> set (Communities u).
          c \<in> insert RFC7999Blackhole (snd ` set ProviderBlackholeCommunities))))) \<and>
   RFC7999Blackhole = ''65535:666'' \<and>
   ''3356:9999'' \<in> snd ` set ProviderBlackholeCommunities \<and>
   ''1299:999'' \<in> snd ` set ProviderBlackholeCommunities \<and>
   ''6939:666'' \<in> snd ` set ProviderBlackholeCommunities \<and>
   ''6939:1234'' \<notin> insert RFC7999Blackhole (snd ` set ProviderBlackholeCommunities) \<and>
   (Communities u = [''6939:1234''] \<longrightarrow> BlackholeDetector_Process ch now u = ch) \<and>
   (\<not> Announcement u \<longrightarrow> BlackholeDetector_Process ch now u = ch)"
proof -
  let ?K = "insert RFC7999Blackhole (snd ` set ProviderBlackholeCommunities)"
  let ?cond = "Announcement u \<and> (\<exists>c \<in> set (Communities u). c \<in> ?K)"
  note a = blackhole_event_iff [of now u]
  have b: "length (buf ch) < cap ch \<longrightarrow> ((BlackholeDetector_Process ch now u \<noteq> ch) \<longleftrightarrow> ?cond)"
  proof (cases "BlackholeDetector_event now u")
    case None
    with a show ?thesis by (simp add: BlackholeDetector_Process_def)
  next
    case (Some e)
    with a try_send_changes [of ch] show ?thesis by (simp add: BlackholeDetector_Process_def)
  qed
  have k: "''6939:1234'' \<notin> ?K"
    by (simp add: ProviderBlackholeCommunities_def RFC7999Blackhole_def)
  have c: "Communities u = [''6939:1234''] \<longrightarrow> BlackholeDetector_Process ch now u = ch"
  proof
    assume "Communities u = [''6939:1234'']"
    with k have "\<not> ?cond" by simp
    with a have "BlackholeDetector_event now u = None"
      by (cases "BlackholeDetector_event now u") auto
    then show "BlackholeDetector_Process ch now u = ch"
      by (simp add: BlackholeDetector_Process_def)
  qed
  have d: "\<not> Announcement u \<longrightarrow> BlackholeDetector_Process ch now u = ch"
    by (simp add: BlackholeDetector_Process_def BlackholeDetector_event_def)
  have m: "RFC7999Blackhole = ''65535:666''"
      "''3356:9999'' \<in> snd ` set ProviderBlackholeCommunities"
      "''1299:999'' \<in> snd ` set ProviderBlackholeCommunities"
      "''6939:666'' \<in> snd ` set ProviderBlackholeCommunities"
    by (simp_all add: ProviderBlackholeCommunities_def RFC7999Blackhole_def)
  from a b c d k m show ?thesis by blast
qed

theorem blackhole_fires_iff_literal_member_witness:
  "length (buf example_chan) < cap example_chan \<and>
   Announcement example_update \<and>
   ''3356:9999'' \<in> set (Communities example_update) \<and>
   BlackholeDetector_Process example_chan 0 example_update \<noteq> example_chan \<and>
   BlackholeDetector_Process example_chan 0 (example_update\<lparr>Announcement := False\<rparr>)
     = example_chan \<and>
   BlackholeDetector_Process example_chan 0 (example_update\<lparr>Communities := [''6939:1234'']\<rparr>)
     = example_chan"
proof -
  have r: "length (buf example_chan) < cap example_chan"
    by (simp add: example_chan_def)
  have u: "Announcement example_update" "''3356:9999'' \<in> set (Communities example_update)"
    by (simp_all add: example_update_def)
  have k: "''3356:9999'' \<in> insert RFC7999Blackhole (snd ` set ProviderBlackholeCommunities)"
    by (simp add: ProviderBlackholeCommunities_def)
  from blackhole_fires_iff_literal_member [of 0 example_update example_chan] r u k
  have 1: "BlackholeDetector_Process example_chan 0 example_update \<noteq> example_chan"
    by blast
  from blackhole_fires_iff_literal_member
         [of 0 "example_update\<lparr>Announcement := False\<rparr>" example_chan]
  have 2: "BlackholeDetector_Process example_chan 0 (example_update\<lparr>Announcement := False\<rparr>)
             = example_chan"
    by simp
  from blackhole_fires_iff_literal_member
         [of 0 "example_update\<lparr>Communities := [''6939:1234'']\<rparr>" example_chan]
  have 3: "BlackholeDetector_Process example_chan 0
             (example_update\<lparr>Communities := [''6939:1234'']\<rparr>) = example_chan"
    by simp
  from r u 1 2 3 show ?thesis by blast
qed

subsection \<open>Leak detector\<close>

lemmas table_defs = IsTier1_def Tier1ASNs_def IsScrubbing_def ScrubbingASNs_def

lemma find_first:
  "k \<le> i \<Longrightarrow> i + 2 < length asPath \<Longrightarrow> leak_window asPath i \<Longrightarrow>
   (\<forall>j. k \<le> j \<and> j < i \<longrightarrow> \<not> leak_window asPath j) \<Longrightarrow>
   findLeakPattern_from asPath k = (asPath ! (i + 1), asPath ! i, asPath ! (i + 2))"
proof (induction asPath k rule: findLeakPattern_from.induct)
  case (1 asPath k)
  show ?case
  proof (cases "k = i")
    case True
    with 1(4,5) show ?thesis
      by (subst findLeakPattern_from.simps) (simp add: leak_window_def)
  next
    case False
    with 1(3) have lt: "k < i" by simp
    with 1(6) have nw: "\<not> leak_window asPath k" by simp
    from lt 1(4) have b: "int k < int (length asPath) - 2" by simp
    have ih: "findLeakPattern_from asPath (k + 1) = (asPath ! (i + 1), asPath ! i, asPath ! (i + 2))"
    proof (cases "IsTier1 (asPath ! k) \<and> IsTier1 (asPath ! (k + 2)) \<and> \<not> IsTier1 (asPath ! (k + 1))")
      case True
      with nw have s: "\<not> \<not> IsScrubbing (asPath ! (k + 1))" by (simp add: leak_window_def)
      show ?thesis
        by (rule 1(1)[OF b True s]) (use lt 1 in auto)
    next
      case False
      show ?thesis
        by (rule 1(2)[OF b False]) (use lt 1 in auto)
    qed
    from nw b ih show ?thesis
      by (subst findLeakPattern_from.simps) (auto simp: leak_window_def)
  qed
qed

lemma find_none:
  "(\<forall>j. k \<le> j \<and> j + 2 < length asPath \<longrightarrow> \<not> leak_window asPath j) \<Longrightarrow>
   findLeakPattern_from asPath k = (0, 0, 0)"
proof (induction asPath k rule: findLeakPattern_from.induct)
  case (1 asPath k)
  show ?case
  proof (cases "int k < int (length asPath) - 2")
    case False
    then show ?thesis by (subst findLeakPattern_from.simps) simp
  next
    case b: True
    then have "k + 2 < length asPath" by simp
    with 1(3) have nw: "\<not> leak_window asPath k" by simp
    have ih: "findLeakPattern_from asPath (k + 1) = (0, 0, 0)"
    proof (cases "IsTier1 (asPath ! k) \<and> IsTier1 (asPath ! (k + 2)) \<and> \<not> IsTier1 (asPath ! (k + 1))")
      case True
      with nw have s: "\<not> \<not> IsScrubbing (asPath ! (k + 1))" by (simp add: leak_window_def)
      show ?thesis by (rule 1(1)[OF b True s]) (use 1(3) in auto)
    next
      case False
      show ?thesis by (rule 1(2)[OF b False]) (use 1(3) in auto)
    qed
    from nw b ih show ?thesis
      by (subst findLeakPattern_from.simps) (auto simp: leak_window_def)
  qed
qed

lemma leak_event_of_pattern:
  assumes "Announcement u" "3 \<le> length (ASPath u)"
    and "findLeakPattern (ASPath u) = (a, b, c)"
  shows "a \<noteq> 0 \<Longrightarrow> \<exists>e. LeakDetector_event now u = Some e \<and> EventType e = EventTypeLeak \<and>
           AffectedASN e = a \<and>
           Details e ''upstream_tier1'' = Some (DUint32 b) \<and>
           Details e ''downstream_tier1'' = Some (DUint32 c) \<and>
           Severity e = SeverityHigh \<and> Details e ''confidence'' = Some (DFloat64 0.85) \<and>
           EventCategory e = CategoryMisconfiguration \<and> AffectedPrefix e = Prefix u"
    and "a = 0 \<Longrightarrow> LeakDetector_event now u = None"
  using assms by (simp_all add: LeakDetector_event_def zero_event_def)

text \<open>
  C5 (as amended). For an announcement, let \<open>i\<close> be the first index whose window
  satisfies the four conditions. If the middle element \<open>path[i+1]\<close> is non-zero the
  detector builds one leak event and offers it to the channel once, with
  \<open>affected_asn = path[i+1]\<close>, \<open>upstream_tier1 = path[i]\<close>,
  \<open>downstream_tier1 = path[i+2]\<close>, severity high and confidence 0.85. If that middle
  element is 0, the value \<open>findLeakPattern\<close> reserves for "not found", no event is
  built. A withdrawal, a path shorter than 3 and a path without a matching window
  give no event, and no update gives more than one send.
\<close>

theorem leak_first_window_nonzero:
  "(Announcement u \<and> i + 2 < length (ASPath u) \<and> leak_window (ASPath u) i \<and>
      (\<forall>j<i. \<not> leak_window (ASPath u) j) \<longrightarrow>
        (ASPath u ! (i + 1) \<noteq> 0 \<longrightarrow>
          (\<exists>e. LeakDetector_event now u = Some e \<and>
               LeakDetector_Process ch now u = try_send ch e \<and>
               EventType e = EventTypeLeak \<and>
               AffectedASN e = ASPath u ! (i + 1) \<and>
               Details e ''upstream_tier1'' = Some (DUint32 (ASPath u ! i)) \<and>
               Details e ''downstream_tier1'' = Some (DUint32 (ASPath u ! (i + 2))) \<and>
               Severity e = SeverityHigh \<and>
               Details e ''confidence'' = Some (DFloat64 0.85))) \<and>
        (ASPath u ! (i + 1) = 0 \<longrightarrow>
           LeakDetector_event now u = None \<and> LeakDetector_Process ch now u = ch)) \<and>
   (\<not> Announcement u \<or> length (ASPath u) < 3 \<or>
      (\<forall>i. i + 2 < length (ASPath u) \<longrightarrow> \<not> leak_window (ASPath u) i) \<longrightarrow>
        LeakDetector_event now u = None \<and> LeakDetector_Process ch now u = ch) \<and>
   (LeakDetector_Process ch now u = ch \<or>
      (\<exists>e. LeakDetector_Process ch now u = try_send ch e))"
proof -
  have none: "LeakDetector_event now u = None \<Longrightarrow> LeakDetector_Process ch now u = ch"
    by (simp add: LeakDetector_Process_def)
  have some: "LeakDetector_event now u = Some e \<Longrightarrow> LeakDetector_Process ch now u = try_send ch e" for e
    by (simp add: LeakDetector_Process_def)
  have A: "Announcement u \<and> i + 2 < length (ASPath u) \<and> leak_window (ASPath u) i \<and>
      (\<forall>j<i. \<not> leak_window (ASPath u) j) \<longrightarrow>
        (ASPath u ! (i + 1) \<noteq> 0 \<longrightarrow>
          (\<exists>e. LeakDetector_event now u = Some e \<and>
               LeakDetector_Process ch now u = try_send ch e \<and>
               EventType e = EventTypeLeak \<and>
               AffectedASN e = ASPath u ! (i + 1) \<and>
               Details e ''upstream_tier1'' = Some (DUint32 (ASPath u ! i)) \<and>
               Details e ''downstream_tier1'' = Some (DUint32 (ASPath u ! (i + 2))) \<and>
               Severity e = SeverityHigh \<and>
               Details e ''confidence'' = Some (DFloat64 0.85))) \<and>
        (ASPath u ! (i + 1) = 0 \<longrightarrow>
           LeakDetector_event now u = None \<and> LeakDetector_Process ch now u = ch)"
  proof (intro impI, elim conjE)
    assume h: "Announcement u" "i + 2 < length (ASPath u)" "leak_window (ASPath u) i"
      "\<forall>j<i. \<not> leak_window (ASPath u) j"
    then have f: "findLeakPattern (ASPath u) =
        (ASPath u ! (i + 1), ASPath u ! i, ASPath u ! (i + 2))"
      unfolding findLeakPattern_def by (intro find_first) auto
    from h have l: "3 \<le> length (ASPath u)" by simp
    show "(ASPath u ! (i + 1) \<noteq> 0 \<longrightarrow>
          (\<exists>e. LeakDetector_event now u = Some e \<and>
               LeakDetector_Process ch now u = try_send ch e \<and>
               EventType e = EventTypeLeak \<and>
               AffectedASN e = ASPath u ! (i + 1) \<and>
               Details e ''upstream_tier1'' = Some (DUint32 (ASPath u ! i)) \<and>
               Details e ''downstream_tier1'' = Some (DUint32 (ASPath u ! (i + 2))) \<and>
               Severity e = SeverityHigh \<and>
               Details e ''confidence'' = Some (DFloat64 0.85))) \<and>
        (ASPath u ! (i + 1) = 0 \<longrightarrow>
           LeakDetector_event now u = None \<and> LeakDetector_Process ch now u = ch)"
      using leak_event_of_pattern(1)[OF h(1) l f, of now]
        leak_event_of_pattern(2)[OF h(1) l f, of now] none some
      by blast
  qed
  have B: "\<not> Announcement u \<or> length (ASPath u) < 3 \<or>
      (\<forall>i. i + 2 < length (ASPath u) \<longrightarrow> \<not> leak_window (ASPath u) i) \<longrightarrow>
        LeakDetector_event now u = None \<and> LeakDetector_Process ch now u = ch"
  proof
    assume h: "\<not> Announcement u \<or> length (ASPath u) < 3 \<or>
      (\<forall>i. i + 2 < length (ASPath u) \<longrightarrow> \<not> leak_window (ASPath u) i)"
    have "LeakDetector_event now u = None"
    proof (cases "\<not> Announcement u \<or> length (ASPath u) < 3")
      case True
      then show ?thesis by (auto simp: LeakDetector_event_def)
    next
      case False
      with h have "\<forall>i. i + 2 < length (ASPath u) \<longrightarrow> \<not> leak_window (ASPath u) i" by blast
      then have "findLeakPattern (ASPath u) = (0, 0, 0)"
        unfolding findLeakPattern_def by (intro find_none) auto
      then show ?thesis by (simp add: LeakDetector_event_def)
    qed
    with none show "LeakDetector_event now u = None \<and> LeakDetector_Process ch now u = ch"
      by simp
  qed
  have C: "LeakDetector_Process ch now u = ch \<or>
      (\<exists>e. LeakDetector_Process ch now u = try_send ch e)"
    using none some by (cases "LeakDetector_event now u") auto
  from A B C show ?thesis by blast
qed

lemma leak_example_facts:
  "Announcement leak_example" "1 + 2 < length (ASPath leak_example)"
  "leak_window (ASPath leak_example) 1" "\<forall>j<1. \<not> leak_window (ASPath leak_example) j"
  "ASPath leak_example ! (1 + 1) \<noteq> 0"
  by (simp_all add: leak_example_def example_update_def leak_window_def table_defs)

theorem leak_first_window_nonzero_witness:
  "Announcement leak_example \<and> 1 + 2 < length (ASPath leak_example) \<and>
   leak_window (ASPath leak_example) 1 \<and> \<not> leak_window (ASPath leak_example) 0 \<and>
   ASPath leak_example ! (1 + 1) \<noteq> 0 \<and>
   (\<exists>e. LeakDetector_Process example_chan 0 leak_example = try_send example_chan e \<and>
        AffectedASN e = 65001 \<and>
        Details e ''upstream_tier1'' = Some (DUint32 6939) \<and>
        Details e ''downstream_tier1'' = Some (DUint32 3356) \<and>
        Severity e = SeverityHigh) \<and>
   LeakDetector_Process example_chan 0 (example_update\<lparr>ASPath := [6939, 3356]\<rparr>) = example_chan"
proof -
  have v: "ASPath leak_example ! (1 + 1) = 65001" "ASPath leak_example ! 1 = 6939"
      "ASPath leak_example ! (1 + 2) = 3356"
    by (simp_all add: leak_example_def example_update_def)
  from leak_first_window_nonzero [of leak_example 1 0 example_chan] leak_example_facts
  have 1: "\<exists>e. LeakDetector_Process example_chan 0 leak_example = try_send example_chan e \<and>
        AffectedASN e = 65001 \<and>
        Details e ''upstream_tier1'' = Some (DUint32 6939) \<and>
        Details e ''downstream_tier1'' = Some (DUint32 3356) \<and>
        Severity e = SeverityHigh"
    unfolding v by blast
  have "length (ASPath (example_update\<lparr>ASPath := [6939, 3356]\<rparr>)) < 3" by simp
  with leak_first_window_nonzero [of "example_update\<lparr>ASPath := [6939, 3356]\<rparr>" 0 0 example_chan]
  have 2: "LeakDetector_Process example_chan 0 (example_update\<lparr>ASPath := [6939, 3356]\<rparr>) = example_chan"
    by blast
  have 0: "\<not> leak_window (ASPath leak_example) 0"
    using leak_example_facts(4) by simp
  from leak_example_facts(1,2,3,5) 0 1 2 show ?thesis by blast
qed

text \<open>
  The claim as stated fails on the path \<open>[6939, 0, 3356, 65001, 174]\<close>: the window at
  index 0 satisfies all four conditions, yet no event is built.
\<close>

theorem leak_zero_middle_counterexample:
  "Announcement leak_zero_example \<and> 3 \<le> length (ASPath leak_zero_example) \<and>
   IsTier1 (ASPath leak_zero_example ! 0) \<and> IsTier1 (ASPath leak_zero_example ! 2) \<and>
   \<not> IsTier1 (ASPath leak_zero_example ! 1) \<and> \<not> IsScrubbing (ASPath leak_zero_example ! 1) \<and>
   LeakDetector_event 0 leak_zero_example = None \<and>
   LeakDetector_Process example_chan 0 leak_zero_example = example_chan"
  by (simp add: leak_zero_example_def example_update_def table_defs LeakDetector_Process_def
      LeakDetector_event_def findLeakPattern_def findLeakPattern_from.simps)

subsection \<open>Hijack detector\<close>

lemma getKnownOrigin_frame:
  "events (snd (getKnownOrigin d now p)) = events d"
  "redis (snd (getKnownOrigin d now p)) = redis d"
  "cacheTTL (snd (getKnownOrigin d now p)) = cacheTTL d"
  by (auto simp: getKnownOrigin_def Let_def split: option.splits)

lemma isKnownMOAS_getKnownOrigin:
  "isKnownMOAS (snd (getKnownOrigin d now p)) t q a = isKnownMOAS d t q a"
  by (simp add: isKnownMOAS_def getKnownOrigin_frame)

lemma Process_unfold:
  "HijackDetector_Process d now u =
    (if \<not> Announcement u \<or> OriginASN u = 0 then d
     else if HasScrubbingCenter (ASPath u) then d
     else if fst (getKnownOrigin d now (Prefix u)) = 0
       then setKnownOrigin (snd (getKnownOrigin d now (Prefix u))) now (Prefix u) (OriginASN u)
     else if fst (getKnownOrigin d now (Prefix u)) = OriginASN u
       then snd (getKnownOrigin d now (Prefix u))
     else if isKnownMOAS d now (Prefix u) (OriginASN u)
       then snd (getKnownOrigin d now (Prefix u))
     else addKnownMOAS
            ((snd (getKnownOrigin d now (Prefix u)))
               \<lparr>events := try_send (events d)
                   (hijack_event now u (fst (getKnownOrigin d now (Prefix u))))\<rparr>)
            now (Prefix u) (OriginASN u))"
  by (simp add: HijackDetector_Process_def split_beta isKnownMOAS_getKnownOrigin getKnownOrigin_frame)

lemma addKnownMOAS_frame:
  "events (addKnownMOAS d now p a) = events d"
  "cache (addKnownMOAS d now p a) = cache d"
  "cacheTime (addKnownMOAS d now p a) = cacheTime d"
  "cacheTTL (addKnownMOAS d now p a) = cacheTTL d"
  by (auto simp: addKnownMOAS_def Let_def split: option.splits)

lemma setKnownOrigin_frame:
  "events (setKnownOrigin d now p a) = events d"
  "cache (setKnownOrigin d now p a) p = Some a"
  "cacheTime (setKnownOrigin d now p a) p = Some now"
  "cacheTTL (setKnownOrigin d now p a) = cacheTTL d"
  by (auto simp: setKnownOrigin_def)

lemma Process_events:
  "events (HijackDetector_Process d now u) = events d \<or>
   events (HijackDetector_Process d now u) =
     try_send (events d) (hijack_event now u (fst (getKnownOrigin d now (Prefix u))))"
  by (simp add: Process_unfold getKnownOrigin_frame addKnownMOAS_frame setKnownOrigin_frame)

lemma hijack_event_fields:
  "EventType (hijack_event now u k) = EventTypeHijack"
  "EventCategory (hijack_event now u k) = CategoryAttack"
  "AffectedASN (hijack_event now u k) = k"
  "AffectedPrefix (hijack_event now u k) = Prefix u"
  "Details (hijack_event now u k) ''hijacking_asn'' = Some (DUint32 (OriginASN u))"
  "Details (hijack_event now u k) ''original_origin'' = Some (DUint32 k)"
  by (simp_all add: hijack_event_def Let_def zero_event_def)

lemma hijack_event_severity:
  "Severity (hijack_event now u k) =
     (if IsTier1 k \<or> IsTier1 (OriginASN u) then SeverityCritical
      else if getPrefixLength (Prefix u) < 16 then SeverityHigh else SeverityMedium)"
  "Details (hijack_event now u k) ''confidence'' =
     Some (DFloat64 (if IsTier1 k \<or> IsTier1 (OriginASN u) then 0.9
      else if getPrefixLength (Prefix u) < 16 then 0.8 else 0.7))"
  "Details (hijack_event now u k) ''flags'' =
     Some (DStrings (if IsTier1 k \<or> IsTier1 (OriginASN u) then [''origin_change'', ''tier1_involved'']
      else if getPrefixLength (Prefix u) < 16 then [''origin_change'', ''large_prefix'']
      else [''origin_change'']))"
  by (simp_all add: hijack_event_def Let_def zero_event_def model_consts)

text \<open>
  C6. Whenever \<open>Process\<close> changes the channel it has offered exactly the event
  \<open>hijack_event\<close> built from the update and the known origin. That event has category
  attack and \<open>affected_asn\<close> the known origin; if the known or the new origin is
  Tier-1 it is critical with confidence 0.90 and flag \<open>tier1_involved\<close>; otherwise,
  with a prefix length below 16, high with 0.80 and \<open>large_prefix\<close>; otherwise medium
  with 0.70 and \<open>origin_change\<close>.
\<close>

theorem hijack_event_severity_table:
  "(events (HijackDetector_Process d now u) \<noteq> events d \<longrightarrow>
      events (HijackDetector_Process d now u) =
        try_send (events d) (hijack_event now u (fst (getKnownOrigin d now (Prefix u))))) \<and>
   EventType (hijack_event now u k) = EventTypeHijack \<and>
   EventCategory (hijack_event now u k) = CategoryAttack \<and>
   AffectedASN (hijack_event now u k) = k \<and>
   (IsTier1 k \<or> IsTier1 (OriginASN u) \<longrightarrow>
      Severity (hijack_event now u k) = SeverityCritical \<and>
      Details (hijack_event now u k) ''confidence'' = Some (DFloat64 0.9) \<and>
      (\<exists>fl. Details (hijack_event now u k) ''flags'' = Some (DStrings fl) \<and>
            ''tier1_involved'' \<in> set fl)) \<and>
   (\<not> (IsTier1 k \<or> IsTier1 (OriginASN u)) \<and> getPrefixLength (Prefix u) < 16 \<longrightarrow>
      Severity (hijack_event now u k) = SeverityHigh \<and>
      Details (hijack_event now u k) ''confidence'' = Some (DFloat64 0.8) \<and>
      (\<exists>fl. Details (hijack_event now u k) ''flags'' = Some (DStrings fl) \<and>
            ''large_prefix'' \<in> set fl)) \<and>
   (\<not> (IsTier1 k \<or> IsTier1 (OriginASN u)) \<and> \<not> getPrefixLength (Prefix u) < 16 \<longrightarrow>
      Severity (hijack_event now u k) = SeverityMedium \<and>
      Details (hijack_event now u k) ''confidence'' = Some (DFloat64 0.7) \<and>
      (\<exists>fl. Details (hijack_event now u k) ''flags'' = Some (DStrings fl) \<and>
            ''origin_change'' \<in> set fl))"
proof -
  have a: "events (HijackDetector_Process d now u) \<noteq> events d \<longrightarrow>
      events (HijackDetector_Process d now u) =
        try_send (events d) (hijack_event now u (fst (getKnownOrigin d now (Prefix u))))"
    using Process_events [of d now u] by blast
  show ?thesis
    by (rule conjI [OF a]) (simp add: hijack_event_fields hijack_event_severity)
qed

lemma keys_differ: "origin_key p \<noteq> origins_key p"
proof
  assume "origin_key p = origins_key p"
  then have "length (origin_key p) = length (origins_key p)"
    by (rule arg_cong)
  then show False by (simp add: origin_key_def origins_key_def)
qed

lemma Hour_pos: "0 < 48 * Hour"
  by (simp add: Hour_def Minute_def)

lemma cache_hit_setKnownOrigin:
  "t - now < cacheTTL d \<Longrightarrow> cache_hit (setKnownOrigin d now p a) t p = Some a"
  by (simp add: cache_hit_def setKnownOrigin_def)

lemma getKnownOrigin_cache_hit:
  "cache_hit d t p = Some a \<Longrightarrow> getKnownOrigin d t p = (a, d)"
  by (simp add: getKnownOrigin_def)

lemma learn_step:
  assumes "Announcement u" "OriginASN u \<noteq> 0" "\<not> HasScrubbingCenter (ASPath u)"
    and "fst (getKnownOrigin d now (Prefix u)) = 0"
  shows "events (HijackDetector_Process d now u) = events d"
    and "cache (HijackDetector_Process d now u) (Prefix u) = Some (OriginASN u)"
    and "cacheTime (HijackDetector_Process d now u) (Prefix u) = Some now"
    and "t - now < cacheTTL d \<Longrightarrow>
           fst (getKnownOrigin (HijackDetector_Process d now u) t (Prefix u)) = OriginASN u"
proof -
  let ?d1 = "snd (getKnownOrigin d now (Prefix u))"
  from assms have P: "HijackDetector_Process d now u =
      setKnownOrigin ?d1 now (Prefix u) (OriginASN u)"
    by (simp add: Process_unfold)
  show "events (HijackDetector_Process d now u) = events d"
    and "cache (HijackDetector_Process d now u) (Prefix u) = Some (OriginASN u)"
    and "cacheTime (HijackDetector_Process d now u) (Prefix u) = Some now"
    by (simp_all add: P setKnownOrigin_frame getKnownOrigin_frame)
  assume "t - now < cacheTTL d"
  then have "t - now < cacheTTL ?d1" by (simp add: getKnownOrigin_frame)
  then show "fst (getKnownOrigin (HijackDetector_Process d now u) t (Prefix u)) = OriginASN u"
    unfolding P by (simp add: getKnownOrigin_cache_hit cache_hit_setKnownOrigin)
qed

lemma same_step:
  assumes "Announcement u" "OriginASN u \<noteq> 0" "\<not> HasScrubbingCenter (ASPath u)"
    and "fst (getKnownOrigin d now (Prefix u)) = OriginASN u"
  shows "HijackDetector_Process d now u = snd (getKnownOrigin d now (Prefix u))"
    and "events (HijackDetector_Process d now u) = events d"
    and "redis (HijackDetector_Process d now u) = redis d"
  using assms by (simp_all add: Process_unfold getKnownOrigin_frame)

lemma getKnownOrigin_idem:
  "fst (getKnownOrigin (snd (getKnownOrigin d now p)) now p) = fst (getKnownOrigin d now p)"
  by (auto simp: getKnownOrigin_def cache_hit_def Let_def split: option.splits)

lemma redis_Get_after_addMOAS:
  "key \<noteq> key' \<Longrightarrow>
   redis_Get (redis_Expire (redis_SAdd r now key' m) now key' ttl) t key = redis_Get r t key"
  by (simp add: redis_Get_def redis_Expire_def redis_SAdd_def live_def)

lemma redis_SIsMember_after_addMOAS:
  "reachable r \<Longrightarrow> 0 < ttl \<Longrightarrow>
   redis_SIsMember (redis_Expire (redis_SAdd r now key m) now key ttl) now key m"
  by (simp add: redis_SIsMember_def redis_Expire_def redis_SAdd_def live_def)

lemma getKnownOrigin_addKnownMOAS:
  "fst (getKnownOrigin (addKnownMOAS (d\<lparr>events := ev\<rparr>) now p a) t p) = fst (getKnownOrigin d t p)"
  by (cases "redis d")
     (simp_all add: getKnownOrigin_def cache_hit_def addKnownMOAS_def Let_def
        redis_Get_after_addMOAS [OF keys_differ] split: option.splits)

lemma hijack_step:
  assumes "Announcement u" "OriginASN u \<noteq> 0" "\<not> HasScrubbingCenter (ASPath u)"
    and "fst (getKnownOrigin d now (Prefix u)) \<noteq> 0"
    and "fst (getKnownOrigin d now (Prefix u)) \<noteq> OriginASN u"
    and "\<not> isKnownMOAS d now (Prefix u) (OriginASN u)"
  shows "events (HijackDetector_Process d now u) =
           try_send (events d) (hijack_event now u (fst (getKnownOrigin d now (Prefix u))))"
    and "fst (getKnownOrigin (HijackDetector_Process d now u) now (Prefix u)) =
           fst (getKnownOrigin d now (Prefix u))"
    and "cache (HijackDetector_Process d now u) = cache (snd (getKnownOrigin d now (Prefix u)))"
    and "redis d = Some r \<Longrightarrow> reachable r \<Longrightarrow>
           isKnownMOAS (HijackDetector_Process d now u) now (Prefix u) (OriginASN u)"
    and "redis d = None \<Longrightarrow> redis (HijackDetector_Process d now u) = None"
proof -
  let ?d1 = "snd (getKnownOrigin d now (Prefix u))"
  let ?k = "fst (getKnownOrigin d now (Prefix u))"
  from assms have P: "HijackDetector_Process d now u =
      addKnownMOAS (?d1\<lparr>events := try_send (events d) (hijack_event now u ?k)\<rparr>)
        now (Prefix u) (OriginASN u)"
    by (simp add: Process_unfold)
  show "events (HijackDetector_Process d now u) = try_send (events d) (hijack_event now u ?k)"
    by (simp add: P addKnownMOAS_frame)
  show "fst (getKnownOrigin (HijackDetector_Process d now u) now (Prefix u)) = ?k"
    by (simp add: P getKnownOrigin_addKnownMOAS getKnownOrigin_idem)
  show "cache (HijackDetector_Process d now u) = cache ?d1"
    by (simp add: P addKnownMOAS_frame)
  show "redis d = Some r \<Longrightarrow> reachable r \<Longrightarrow>
           isKnownMOAS (HijackDetector_Process d now u) now (Prefix u) (OriginASN u)"
    by (simp add: P addKnownMOAS_def isKnownMOAS_def getKnownOrigin_frame Let_def
        redis_SIsMember_after_addMOAS Hour_pos)
  show "redis d = None \<Longrightarrow> redis (HijackDetector_Process d now u) = None"
    by (simp add: P addKnownMOAS_def getKnownOrigin_frame)
qed

lemma moas_step:
  assumes "Announcement u" "OriginASN u \<noteq> 0" "\<not> HasScrubbingCenter (ASPath u)"
    and "fst (getKnownOrigin d now (Prefix u)) \<noteq> 0"
    and "fst (getKnownOrigin d now (Prefix u)) \<noteq> OriginASN u"
    and "isKnownMOAS d now (Prefix u) (OriginASN u)"
  shows "HijackDetector_Process d now u = snd (getKnownOrigin d now (Prefix u))"
    and "events (HijackDetector_Process d now u) = events d"
  using assms by (simp_all add: Process_unfold getKnownOrigin_frame)

lemma skip_step:
  "\<not> Announcement u \<or> OriginASN u = 0 \<or> HasScrubbingCenter (ASPath u) \<Longrightarrow>
   HijackDetector_Process d now u = d"
  by (auto simp: Process_unfold)

lemmas hijack_defs = HijackDetector_Process_def getKnownOrigin_def cache_hit_def
  setKnownOrigin_def isKnownMOAS_def addKnownMOAS_def NewHijackDetector_def
  redis_Get_def redis_Set_def redis_SIsMember_def redis_SAdd_def redis_Expire_def live_def
  origin_key_def origins_key_def Minute_def Hour_def table_defs try_send_def

lemma ucast_back: "(ucast (ucast (a :: 32 word) :: 64 word) :: 32 word) = a"
  by (rule bit_word_eqI) (auto simp: bit_ucast_iff dest: bit_imp_le_length)

lemma getKnownOrigin_cases:
  "fst (getKnownOrigin d t p) =
     (case cache_hit d t p of
        Some v \<Rightarrow> v
      | None \<Rightarrow>
          (case redis d of
             None \<Rightarrow> 0
           | Some r \<Rightarrow>
               (case redis_Get r t (origin_key p) of Some val \<Rightarrow> ucast val | None \<Rightarrow> 0)))"
  by (simp add: getKnownOrigin_def Let_def split: option.splits)

lemma cache_hit_val: "cache_hit d t p = Some v \<Longrightarrow> cache d p = Some v"
  by (auto simp: cache_hit_def split: option.splits if_splits)

lemma learn_step_store:
  assumes "Announcement u" "OriginASN u \<noteq> 0" "\<not> HasScrubbingCenter (ASPath u)"
    and "fst (getKnownOrigin d now (Prefix u)) = 0"
    and "redis d = Some r" "reachable r" "t < now + 48 * Hour"
  shows "fst (getKnownOrigin (HijackDetector_Process d now u) t (Prefix u)) = OriginASN u"
proof -
  let ?d1 = "snd (getKnownOrigin d now (Prefix u))"
  let ?d' = "setKnownOrigin ?d1 now (Prefix u) (OriginASN u)"
  from assms have P: "HijackDetector_Process d now u = ?d'"
    by (simp add: Process_unfold)
  have c: "cache ?d' (Prefix u) = Some (OriginASN u)" by (simp add: setKnownOrigin_frame)
  have r: "redis ?d' = Some (redis_Set r now (origin_key (Prefix u)) (ucast (OriginASN u)) (48 * Hour))"
    using assms(5) by (simp add: setKnownOrigin_def getKnownOrigin_frame)
  have g: "redis_Get (redis_Set r now (origin_key (Prefix u)) (ucast (OriginASN u)) (48 * Hour)) t
             (origin_key (Prefix u)) = Some (ucast (OriginASN u))"
    using assms(6,7) by (simp add: redis_Get_def redis_Set_def live_def)
  show ?thesis
  proof (cases "cache_hit ?d' t (Prefix u)")
    case None
    then show ?thesis unfolding P by (simp add: getKnownOrigin_cases r g ucast_back)
  next
    case (Some v)
    from cache_hit_val [OF Some] c have "v = OriginASN u" by simp
    with Some show ?thesis unfolding P by (simp add: getKnownOrigin_cases)
  qed
qed

text \<open>
  C1 (as amended). Each call is decided by the known origin the store returns at that
  moment: the local cache entry if younger than the cache TTL, else the unexpired key
  of a reachable external store, else none. For an announcement with non-zero origin
  and no scrubbing ASN on the path: if no origin is returned, no event is offered and
  the update's origin is stored (it is returned again while the cache entry is fresh,
  or for 48 hours by a reachable external store); if the returned origin equals the
  update's, no event is offered and the origin stays; if it differs and the update's
  origin is not in the MOAS set, exactly one hijack event is offered, with
  \<open>affected_asn\<close> the known origin and \<open>hijacking_asn\<close> the new one, the known origin
  is not overwritten, and the new origin joins the MOAS set when a reachable external
  store is present (without a store no MOAS set is kept); if it differs and is in the
  MOAS set, no event is offered. With a scrubbing ASN on the path the detector state
  is unchanged.
\<close>

theorem hijack_step_by_known_origin:
  "(Announcement u \<and> OriginASN u \<noteq> 0 \<and> \<not> HasScrubbingCenter (ASPath u) \<longrightarrow>
     (fst (getKnownOrigin d now (Prefix u)) = 0 \<longrightarrow>
        events (HijackDetector_Process d now u) = events d \<and>
        cache (HijackDetector_Process d now u) (Prefix u) = Some (OriginASN u) \<and>
        cacheTime (HijackDetector_Process d now u) (Prefix u) = Some now \<and>
        (\<forall>t. t - now < cacheTTL d \<longrightarrow>
           fst (getKnownOrigin (HijackDetector_Process d now u) t (Prefix u)) = OriginASN u) \<and>
        (\<forall>r t. redis d = Some r \<and> reachable r \<and> t < now + 48 * Hour \<longrightarrow>
           fst (getKnownOrigin (HijackDetector_Process d now u) t (Prefix u)) = OriginASN u)) \<and>
     (fst (getKnownOrigin d now (Prefix u)) = OriginASN u \<longrightarrow>
        HijackDetector_Process d now u = snd (getKnownOrigin d now (Prefix u)) \<and>
        events (HijackDetector_Process d now u) = events d \<and>
        redis (HijackDetector_Process d now u) = redis d \<and>
        fst (getKnownOrigin (HijackDetector_Process d now u) now (Prefix u)) = OriginASN u) \<and>
     (fst (getKnownOrigin d now (Prefix u)) \<noteq> 0 \<and>
      fst (getKnownOrigin d now (Prefix u)) \<noteq> OriginASN u \<and>
      \<not> isKnownMOAS d now (Prefix u) (OriginASN u) \<longrightarrow>
        events (HijackDetector_Process d now u) =
          try_send (events d) (hijack_event now u (fst (getKnownOrigin d now (Prefix u)))) \<and>
        EventType (hijack_event now u (fst (getKnownOrigin d now (Prefix u)))) = EventTypeHijack \<and>
        AffectedASN (hijack_event now u (fst (getKnownOrigin d now (Prefix u)))) =
          fst (getKnownOrigin d now (Prefix u)) \<and>
        Details (hijack_event now u (fst (getKnownOrigin d now (Prefix u)))) ''hijacking_asn'' =
          Some (DUint32 (OriginASN u)) \<and>
        fst (getKnownOrigin (HijackDetector_Process d now u) now (Prefix u)) =
          fst (getKnownOrigin d now (Prefix u)) \<and>
        cache (HijackDetector_Process d now u) = cache (snd (getKnownOrigin d now (Prefix u))) \<and>
        (\<forall>r. redis d = Some r \<and> reachable r \<longrightarrow>
           isKnownMOAS (HijackDetector_Process d now u) now (Prefix u) (OriginASN u)) \<and>
        (redis d = None \<longrightarrow>
           (\<forall>t. \<not> isKnownMOAS (HijackDetector_Process d now u) t (Prefix u) (OriginASN u)))) \<and>
     (fst (getKnownOrigin d now (Prefix u)) \<noteq> 0 \<and>
      fst (getKnownOrigin d now (Prefix u)) \<noteq> OriginASN u \<and>
      isKnownMOAS d now (Prefix u) (OriginASN u) \<longrightarrow>
        HijackDetector_Process d now u = snd (getKnownOrigin d now (Prefix u)) \<and>
        events (HijackDetector_Process d now u) = events d)) \<and>
   (HasScrubbingCenter (ASPath u) \<longrightarrow> HijackDetector_Process d now u = d)"
proof (intro conjI impI, goal_cases)
  case 1 then show ?case by (simp add: learn_step)
next
  case 2 then show ?case by (simp add: learn_step)
next
  case 3 then show ?case by (simp add: learn_step)
next
  case 4 then show ?case by (auto simp: learn_step)
next
  case 5 then show ?case by (auto intro: learn_step_store)
next
  case 6 then show ?case by (simp add: same_step getKnownOrigin_frame)
next
  case 7 then show ?case by (simp add: same_step getKnownOrigin_frame)
next
  case 8 then show ?case by (simp add: same_step getKnownOrigin_frame)
next
  case 9 then show ?case by (simp add: same_step getKnownOrigin_idem)
next
  case 10 then show ?case by (simp add: hijack_step)
next
  case 11 then show ?case by (simp add: hijack_event_fields)
next
  case 12 then show ?case by (simp add: hijack_event_fields)
next
  case 13 then show ?case by (simp add: hijack_event_fields)
next
  case 14 then show ?case by (simp add: hijack_step)
next
  case 15 then show ?case by (simp add: hijack_step)
next
  case 16 then show ?case by (auto intro: hijack_step(4))
next
  case 17 then show ?case by (simp add: hijack_step(5) isKnownMOAS_def)
next
  case 18 then show ?case by (simp add: moas_step getKnownOrigin_frame)
next
  case 19 then show ?case by (simp add: moas_step getKnownOrigin_frame)
next
  case 20 then show ?case by (simp add: skip_step)
qed


lemma hijack_d1_eq:
  "HijackDetector_Process hijack_d0 0 hijack_uA =
   \<lparr>events = example_chan,
    redis = Some \<lparr>reachable = True, scalars = [origin_key ''1.2.3.0/24'' \<mapsto> 64500],
              members = Map.empty, expiry = [origin_key ''1.2.3.0/24'' \<mapsto> 48 * Hour]\<rparr>,
    cache = [''1.2.3.0/24'' \<mapsto> 64500],
    cacheTTL = 5 * Minute, cacheTime = [''1.2.3.0/24'' \<mapsto> 0]\<rparr>"
  by (simp add: HijackDetector_Process_def getKnownOrigin_def cache_hit_def
      setKnownOrigin_def NewHijackDetector_def redis_Get_def redis_Set_def live_def
      table_defs hijack_uA_def hijack_store_def hijack_d0_def)

lemma hijack_inputs:
  "Announcement hijack_uA" "OriginASN hijack_uA \<noteq> 0" "\<not> HasScrubbingCenter (ASPath hijack_uA)"
  "Announcement hijack_uB" "OriginASN hijack_uB \<noteq> 0" "\<not> HasScrubbingCenter (ASPath hijack_uB)"
  "Prefix hijack_uA = ''1.2.3.0/24''" "Prefix hijack_uB = ''1.2.3.0/24''"
  "OriginASN hijack_uA = 64500" "OriginASN hijack_uB = 64501"
  by (simp_all add: hijack_uA_def hijack_uB_def table_defs)

theorem hijack_step_by_known_origin_witness:
  "Announcement hijack_uA \<and> OriginASN hijack_uA \<noteq> 0 \<and>
   \<not> HasScrubbingCenter (ASPath hijack_uA) \<and>
   Announcement hijack_uB \<and> OriginASN hijack_uB \<noteq> 0 \<and>
   \<not> HasScrubbingCenter (ASPath hijack_uB) \<and>
   fst (getKnownOrigin hijack_d0 0 ''1.2.3.0/24'') = 0 \<and>
   events (HijackDetector_Process hijack_d0 0 hijack_uA) = events hijack_d0 \<and>
   fst (getKnownOrigin (HijackDetector_Process hijack_d0 0 hijack_uA) 1000000000 ''1.2.3.0/24'')
     = 64500 \<and>
   \<not> isKnownMOAS (HijackDetector_Process hijack_d0 0 hijack_uA) 1000000000 ''1.2.3.0/24'' 64501 \<and>
   events (HijackDetector_Process (HijackDetector_Process hijack_d0 0 hijack_uA)
             1000000000 hijack_uB)
     = try_send example_chan (hijack_event 1000000000 hijack_uB 64500) \<and>
   AffectedASN (hijack_event 1000000000 hijack_uB 64500) = 64500 \<and>
   Details (hijack_event 1000000000 hijack_uB 64500) ''hijacking_asn'' = Some (DUint32 64501) \<and>
   fst (getKnownOrigin
          (HijackDetector_Process (HijackDetector_Process hijack_d0 0 hijack_uA)
             1000000000 hijack_uB) 1000000000 ''1.2.3.0/24'') = 64500 \<and>
   isKnownMOAS
     (HijackDetector_Process (HijackDetector_Process hijack_d0 0 hijack_uA)
        1000000000 hijack_uB) 1000000000 ''1.2.3.0/24'' 64501 \<and>
   events (HijackDetector_Process
             (HijackDetector_Process (HijackDetector_Process hijack_d0 0 hijack_uA)
                1000000000 hijack_uB) 1000000000 hijack_uB)
     = events (HijackDetector_Process (HijackDetector_Process hijack_d0 0 hijack_uA)
                1000000000 hijack_uB) \<and>
   events (HijackDetector_Process (HijackDetector_Process hijack_d0 0 hijack_uA)
             1000000000 hijack_uA)
     = events (HijackDetector_Process hijack_d0 0 hijack_uA) \<and>
   HasScrubbingCenter (ASPath (hijack_uB\<lparr>ASPath := [13335, 64501]\<rparr>)) \<and>
   HijackDetector_Process (HijackDetector_Process hijack_d0 0 hijack_uA) 1000000000
     (hijack_uB\<lparr>ASPath := [13335, 64501]\<rparr>) = HijackDetector_Process hijack_d0 0 hijack_uA"
proof -
  let ?p = "''1.2.3.0/24''"
  let ?t = "1000000000 :: int"
  let ?d1 = "HijackDetector_Process hijack_d0 0 hijack_uA"
  let ?d2 = "HijackDetector_Process ?d1 ?t hijack_uB"
  note i = hijack_inputs
  have k0: "fst (getKnownOrigin hijack_d0 0 ?p) = 0"
    by (simp add: getKnownOrigin_def cache_hit_def hijack_d0_def NewHijackDetector_def
        hijack_store_def redis_Get_def live_def)
  have r0: "redis hijack_d0 = Some hijack_store" "reachable hijack_store"
    by (simp_all add: hijack_d0_def NewHijackDetector_def hijack_store_def)
  from hijack_step_by_known_origin [of hijack_uA hijack_d0 0] i k0
  have s1: "events ?d1 = events hijack_d0"
    by simp
  have k1: "fst (getKnownOrigin ?d1 ?t ?p) = 64500"
    unfolding hijack_d1_eq by (simp add: getKnownOrigin_def cache_hit_def Minute_def)
  have m1: "\<not> isKnownMOAS ?d1 ?t ?p 64501"
    unfolding hijack_d1_eq by (simp add: isKnownMOAS_def redis_SIsMember_def)
  have r1: "redis ?d1 = Some \<lparr>reachable = True, scalars = [origin_key ''1.2.3.0/24'' \<mapsto> 64500],
              members = Map.empty, expiry = [origin_key ''1.2.3.0/24'' \<mapsto> 48 * Hour]\<rparr>"
      "events ?d1 = example_chan"
    unfolding hijack_d1_eq by simp_all
  from hijack_step_by_known_origin [of hijack_uB ?d1 ?t] i k1 m1 r1
  have s2: "events ?d2 = try_send example_chan (hijack_event ?t hijack_uB 64500)"
      "AffectedASN (hijack_event ?t hijack_uB 64500) = 64500"
      "Details (hijack_event ?t hijack_uB 64500) ''hijacking_asn'' = Some (DUint32 64501)"
      "fst (getKnownOrigin ?d2 ?t ?p) = 64500"
      "isKnownMOAS ?d2 ?t ?p 64501"
    by simp_all
  from hijack_step_by_known_origin [of hijack_uB ?d2 ?t] i s2(4,5)
  have s3: "events (HijackDetector_Process ?d2 ?t hijack_uB) = events ?d2"
    by (simp add: getKnownOrigin_frame)
  from hijack_step_by_known_origin [of hijack_uA ?d1 ?t] i k1
  have s4: "events (HijackDetector_Process ?d1 ?t hijack_uA) = events ?d1"
    by (simp add: getKnownOrigin_frame)
  have sc: "HasScrubbingCenter (ASPath (hijack_uB\<lparr>ASPath := [13335, 64501]\<rparr>))"
    by (simp add: table_defs)
  from hijack_step_by_known_origin [of "hijack_uB\<lparr>ASPath := [13335, 64501]\<rparr>" ?d1 ?t] sc
  have s5: "HijackDetector_Process ?d1 ?t (hijack_uB\<lparr>ASPath := [13335, 64501]\<rparr>) = ?d1"
    by blast
  from i(1-6) k0 s1 k1 m1 s2 s3 s4 sc s5 show ?thesis by blast
qed

text \<open>
  The claim as stated fails without an external store once the cache entry is older
  than five minutes: origin 64500 is learned at time 0, and the announcement by 64501
  at 301 s offers no event and overwrites the known origin.
\<close>

theorem hijack_stale_cache_counterexample:
  "Announcement hijack_uA \<and> OriginASN hijack_uA \<noteq> 0 \<and>
   \<not> HasScrubbingCenter (ASPath hijack_uA) \<and>
   Announcement hijack_uB \<and> OriginASN hijack_uB \<noteq> 0 \<and>
   \<not> HasScrubbingCenter (ASPath hijack_uB) \<and>
   Prefix hijack_uB = Prefix hijack_uA \<and> OriginASN hijack_uB \<noteq> OriginASN hijack_uA \<and>
   cache (HijackDetector_Process hijack_d0_local 0 hijack_uA) (Prefix hijack_uA)
     = Some (OriginASN hijack_uA) \<and>
   events (HijackDetector_Process (HijackDetector_Process hijack_d0_local 0 hijack_uA)
             (301 * 1000000000) hijack_uB)
     = events (HijackDetector_Process hijack_d0_local 0 hijack_uA) \<and>
   cache (HijackDetector_Process (HijackDetector_Process hijack_d0_local 0 hijack_uA)
            (301 * 1000000000) hijack_uB) (Prefix hijack_uA)
     = Some (OriginASN hijack_uB)"
proof -
  have e1: "HijackDetector_Process hijack_d0_local 0 hijack_uA =
     \<lparr>events = example_chan, redis = None, cache = [''1.2.3.0/24'' \<mapsto> 64500],
      cacheTTL = 5 * Minute, cacheTime = [''1.2.3.0/24'' \<mapsto> 0]\<rparr>"
    by (simp add: hijack_defs hijack_uA_def hijack_d0_local_def)
  have e2: "HijackDetector_Process
       (HijackDetector_Process hijack_d0_local 0 hijack_uA) (301 * 1000000000) hijack_uB =
     \<lparr>events = example_chan, redis = None, cache = [''1.2.3.0/24'' \<mapsto> 64501],
      cacheTTL = 5 * Minute, cacheTime = [''1.2.3.0/24'' \<mapsto> 301 * 1000000000]\<rparr>"
    unfolding e1 by (simp add: hijack_defs hijack_uA_def hijack_uB_def)
  show ?thesis
    unfolding e2 unfolding e1 by (simp add: hijack_inputs)
qed

theorem hijack_event_severity_table_witness:
  "events (HijackDetector_Process (HijackDetector_Process hijack_d0 0 hijack_uA)
             1000000000 hijack_uB)
     \<noteq> events (HijackDetector_Process hijack_d0 0 hijack_uA) \<and>
   events (HijackDetector_Process (HijackDetector_Process hijack_d0 0 hijack_uA)
             1000000000 hijack_uB)
     = try_send (events (HijackDetector_Process hijack_d0 0 hijack_uA))
         (hijack_event 1000000000 hijack_uB 64500) \<and>
   \<not> (IsTier1 64500 \<or> IsTier1 (OriginASN hijack_uB)) \<and>
   \<not> getPrefixLength (Prefix hijack_uB) < 16 \<and>
   Severity (hijack_event 1000000000 hijack_uB 64500) = SeverityMedium \<and>
   Details (hijack_event 1000000000 hijack_uB 64500) ''confidence'' = Some (DFloat64 0.7) \<and>
   IsTier1 3356 \<and>
   Severity (hijack_event 1000000000 hijack_uB 3356) = SeverityCritical \<and>
   getPrefixLength ''10.0.0.0/8'' < 16 \<and>
   Severity (hijack_event 1000000000 (hijack_uB\<lparr>Prefix := ''10.0.0.0/8''\<rparr>) 64500)
     = SeverityHigh"
proof -
  let ?t = "1000000000 :: int"
  let ?d1 = "HijackDetector_Process hijack_d0 0 hijack_uA"
  have k1: "fst (getKnownOrigin ?d1 ?t (Prefix hijack_uB)) = 64500"
    unfolding hijack_d1_eq by (simp add: getKnownOrigin_def cache_hit_def Minute_def hijack_inputs)
  have ne: "events (HijackDetector_Process ?d1 ?t hijack_uB) \<noteq> events ?d1"
    unfolding hijack_d1_eq
    by (simp add: hijack_defs hijack_uA_def hijack_uB_def example_chan_def Let_def)
  have t1: "\<not> (IsTier1 64500 \<or> IsTier1 (OriginASN hijack_uB))" "IsTier1 3356"
    by (simp_all add: table_defs hijack_inputs)
  have p: "\<not> getPrefixLength (Prefix hijack_uB) < 16" "getPrefixLength ''10.0.0.0/8'' < 16"
    by (simp_all add: hijack_inputs getPrefixLength_def wrap64_def)
  from hijack_event_severity_table [of ?d1 ?t hijack_uB 64500] ne k1 t1 p
  have a: "events (HijackDetector_Process ?d1 ?t hijack_uB)
             = try_send (events ?d1) (hijack_event ?t hijack_uB 64500)"
      "Severity (hijack_event ?t hijack_uB 64500) = SeverityMedium"
      "Details (hijack_event ?t hijack_uB 64500) ''confidence'' = Some (DFloat64 0.7)"
    by simp_all
  from hijack_event_severity_table [of ?d1 ?t hijack_uB 3356] t1
  have b: "Severity (hijack_event ?t hijack_uB 3356) = SeverityCritical"
    by simp
  from hijack_event_severity_table [of ?d1 ?t "hijack_uB\<lparr>Prefix := ''10.0.0.0/8''\<rparr>" 64500] t1 p
  have c: "Severity (hijack_event ?t (hijack_uB\<lparr>Prefix := ''10.0.0.0/8''\<rparr>) 64500) = SeverityHigh"
    by (simp add: hijack_inputs)
  from ne a b c t1 p show ?thesis by blast
qed

subsection \<open>Prefix length\<close>

lemma scan_no_slash: "n \<le> length p \<Longrightarrow> CHR ''/'' \<notin> set p \<Longrightarrow> scan_slash p n = 32"
  by (induction n) (auto simp: in_set_conv_nth)

lemma getPrefixLength_no_slash: "CHR ''/'' \<notin> set p \<Longrightarrow> getPrefixLength p = 32"
  by (simp add: getPrefixLength_def scan_no_slash)

lemma wrap64_range: "- (2 ^ 63) \<le> wrap64 x \<and> wrap64 x < 2 ^ 63"
proof -
  have "0 \<le> (x + 2 ^ 63) mod 2 ^ 64" "(x + 2 ^ 63) mod 2 ^ 64 < (2 ^ 64 :: int)"
    by simp_all
  then show ?thesis unfolding wrap64_def by simp
qed

lemma accumulate_range:
  "- (2 ^ 63) \<le> len \<and> len < 2 ^ 63 \<Longrightarrow>
   - (2 ^ 63) \<le> accumulate_length len cs \<and> accumulate_length len cs < 2 ^ 63"
proof (induction cs arbitrary: len)
  case Nil
  then show ?case by simp
next
  case (Cons c cs)
  show ?case
    unfolding accumulate_length.simps by (rule Cons.IH) (rule wrap64_range)
qed

lemma scan_range:
  "- (2 ^ 63) \<le> scan_slash p n \<and> scan_slash p n < 2 ^ 63"
proof (induction n)
  case 0
  show ?case by simp
next
  case (Suc n)
  have "- (2 ^ 63) \<le> accumulate_length 0 (drop (Suc n) p) \<and>
        accumulate_length 0 (drop (Suc n) p) < 2 ^ 63"
    by (rule accumulate_range) simp
  with Suc show ?case unfolding scan_slash.simps by (simp only: split: if_split) blast
qed

lemma getPrefixLength_range:
  "- (2 ^ 63) \<le> getPrefixLength p \<and> getPrefixLength p < 2 ^ 63"
  unfolding getPrefixLength_def by (rule scan_range)

lemma scan_last_slash:
  "m \<le> length b \<Longrightarrow> CHR ''/'' \<notin> set b \<Longrightarrow>
   scan_slash (a @ CHR ''/'' # b) (Suc (length a) + m) = accumulate_length 0 b"
proof (induction m)
  case 0
  then show ?case by simp
next
  case (Suc m)
  then have "m < length b" by simp
  with Suc.prems have "b ! m \<noteq> CHR ''/''" by (metis nth_mem)
  moreover have "(a @ CHR ''/'' # b) ! (Suc (length a) + m) = b ! m"
    by (simp add: nth_append)
  ultimately show ?case using Suc by simp
qed

lemma getPrefixLength_last_slash:
  "CHR ''/'' \<notin> set b \<Longrightarrow> getPrefixLength (a @ CHR ''/'' # b) = accumulate_length 0 b"
  using scan_last_slash [of "length b" b a] by (simp add: getPrefixLength_def)

text \<open>
  C10. A prefix string without \<open>/\<close> has prefix length 32. A matching blackhole
  announcement with such a prefix is therefore classified as a host route: severity
  medium, confidence 0.95, \<open>is_host_route\<close> true. The hijack event for such a prefix
  is critical or medium, never high, and never carries the \<open>large_prefix\<close> flags.
  \<open>getPrefixLength\<close> has a value in the range of a 64-bit \<open>int\<close> for every string:
  where a \<open>/\<close> occurs it is the wrapped accumulation over the bytes after the last one,
  whatever they are.
\<close>

theorem prefix_without_slash_is_host_route:
  "(CHR ''/'' \<notin> set p \<longrightarrow> getPrefixLength p = 32) \<and>
   (CHR ''/'' \<notin> set (Prefix u) \<and> Announcement u \<and> HasBlackholeCommunity (Communities u) \<longrightarrow>
      (\<exists>e. BlackholeDetector_event now u = Some e \<and>
           BlackholeDetector_Process ch now u = try_send ch e \<and>
           Severity e = SeverityMedium \<and>
           Details e ''confidence'' = Some (DFloat64 0.95) \<and>
           Details e ''is_host_route'' = Some (DBool True))) \<and>
   (CHR ''/'' \<notin> set (Prefix u) \<longrightarrow>
      Severity (hijack_event now u k) =
        (if IsTier1 k \<or> IsTier1 (OriginASN u) then SeverityCritical else SeverityMedium) \<and>
      Severity (hijack_event now u k) \<noteq> SeverityHigh \<and>
      Details (hijack_event now u k) ''flags'' \<noteq>
        Some (DStrings [''origin_change'', ''large_prefix''])) \<and>
   (- (2 ^ 63) \<le> getPrefixLength q \<and> getPrefixLength q < 2 ^ 63) \<and>
   (CHR ''/'' \<notin> set b \<longrightarrow> getPrefixLength (a @ CHR ''/'' # b) = accumulate_length 0 b)"
proof -
  have A: "CHR ''/'' \<notin> set p \<longrightarrow> getPrefixLength p = 32"
    by (simp add: getPrefixLength_no_slash)
  have B: "CHR ''/'' \<notin> set (Prefix u) \<and> Announcement u \<and> HasBlackholeCommunity (Communities u) \<longrightarrow>
      (\<exists>e. BlackholeDetector_event now u = Some e \<and>
           BlackholeDetector_Process ch now u = try_send ch e \<and>
           Severity e = SeverityMedium \<and>
           Details e ''confidence'' = Some (DFloat64 0.95) \<and>
           Details e ''is_host_route'' = Some (DBool True))"
    by (simp add: BlackholeDetector_Process_def BlackholeDetector_event_def
        getPrefixLength_no_slash zero_event_def)
  have C: "CHR ''/'' \<notin> set (Prefix u) \<longrightarrow>
      Severity (hijack_event now u k) =
        (if IsTier1 k \<or> IsTier1 (OriginASN u) then SeverityCritical else SeverityMedium) \<and>
      Severity (hijack_event now u k) \<noteq> SeverityHigh \<and>
      Details (hijack_event now u k) ''flags'' \<noteq>
        Some (DStrings [''origin_change'', ''large_prefix''])"
    by (simp add: hijack_event_def Let_def zero_event_def model_consts
        getPrefixLength_no_slash)
  have E: "CHR ''/'' \<notin> set b \<longrightarrow> getPrefixLength (a @ CHR ''/'' # b) = accumulate_length 0 b"
    by (simp add: getPrefixLength_last_slash)
  from A B C getPrefixLength_range [of q] E show ?thesis by blast
qed

theorem prefix_without_slash_is_host_route_witness:
  "CHR ''/'' \<notin> set ''192.0.2.1'' \<and> getPrefixLength ''192.0.2.1'' = 32 \<and>
   CHR ''/'' \<notin> set (Prefix noslash_update) \<and> Announcement noslash_update \<and>
   HasBlackholeCommunity (Communities noslash_update) \<and>
   (\<exists>e. BlackholeDetector_event 0 noslash_update = Some e \<and>
        Severity e = SeverityMedium \<and>
        Details e ''confidence'' = Some (DFloat64 0.95) \<and>
        Details e ''is_host_route'' = Some (DBool True)) \<and>
   Severity (hijack_event 0 noslash_update 64499) = SeverityMedium \<and>
   CHR ''/'' \<notin> set ''24x'' \<and>
   getPrefixLength (''10.0.0.0'' @ CHR ''/'' # ''24x'') = accumulate_length 0 ''24x''"
proof -
  have h: "CHR ''/'' \<notin> set ''192.0.2.1''" "CHR ''/'' \<notin> set (Prefix noslash_update)"
      "Announcement noslash_update" "CHR ''/'' \<notin> set ''24x''"
    by (simp_all add: noslash_update_def example_update_def)
  have c: "HasBlackholeCommunity (Communities noslash_update)"
    by (simp add: noslash_update_def example_update_def IsBlackholeCommunity_iff
        ProviderBlackholeCommunities_def)
  have t: "\<not> (IsTier1 64499 \<or> IsTier1 (OriginASN noslash_update))"
    by (simp add: noslash_update_def example_update_def table_defs)
  note T = prefix_without_slash_is_host_route
      [of "''192.0.2.1''" noslash_update 0 example_chan 64499 "[]" "''24x''" "''10.0.0.0''"]
  from T h have 1: "getPrefixLength ''192.0.2.1'' = 32" by blast
  from T h c have 2: "\<exists>e. BlackholeDetector_event 0 noslash_update = Some e \<and>
        Severity e = SeverityMedium \<and>
        Details e ''confidence'' = Some (DFloat64 0.95) \<and>
        Details e ''is_host_route'' = Some (DBool True)" by blast
  from T h t have 3: "Severity (hijack_event 0 noslash_update 64499) = SeverityMedium" by simp
  from T h have 4: "getPrefixLength (''10.0.0.0'' @ CHR ''/'' # ''24x'') = accumulate_length 0 ''24x''"
    by blast
  from h c 1 2 3 4 show ?thesis by blast
qed

subsection \<open>Update parser\<close>

lemma parse_digits_append:
  "parse_digits n (xs @ ys) =
     (case parse_digits n xs of (m, None) \<Rightarrow> parse_digits m ys | (m, Some e) \<Rightarrow> (m, Some e))"
  by (induction xs arbitrary: n) auto

lemma digit_char: "d < 10 \<Longrightarrow> (of_char (''0123456789'' ! d) :: nat) = 48 + d"
proof -
  assume "d < 10"
  then have "d \<in> {0, 1, 2, 3, 4, 5, 6, 7, 8, 9}" by auto
  then show ?thesis by auto
qed

lemma parse_digits_digit:
  "d < 10 \<Longrightarrow> n * 10 + d \<le> 2 ^ 32 - 1 \<Longrightarrow>
   parse_digits n [''0123456789'' ! d] = (n * 10 + d, None)"
  by (simp add: digit_char)

lemma FormatUint_nonempty: "FormatUint n \<noteq> []"
  by (subst FormatUint.simps) simp

lemma parse_FormatUint:
  "n * 10 ^ length (FormatUint v) + v \<le> 2 ^ 32 - 1 \<Longrightarrow>
   parse_digits n (FormatUint v) = (n * 10 ^ length (FormatUint v) + v, None)"
proof (induction v arbitrary: n rule: FormatUint.induct)
  case (1 v)
  show ?case
  proof (cases "v < 10")
    case True
    then have f: "FormatUint v = [''0123456789'' ! v]" by (subst FormatUint.simps) simp
    from 1(2) True show ?thesis unfolding f by (simp add: digit_char)
  next
    case False
    then have f: "FormatUint v = FormatUint (v div 10) @ [''0123456789'' ! (v mod 10)]"
      by (subst FormatUint.simps) simp
    let ?l = "length (FormatUint (v div 10))"
    have len: "length (FormatUint v) = Suc ?l" unfolding f by simp
    have v: "v = (v div 10) * 10 + v mod 10" by simp
    from 1(2) have b: "n * 10 ^ Suc ?l + ((v div 10) * 10 + v mod 10) \<le> 2 ^ 32 - 1"
      unfolding len using v by simp
    then have b1: "n * 10 ^ ?l + v div 10 \<le> 2 ^ 32 - 1" by simp
    have ih: "parse_digits n (FormatUint (v div 10)) = (n * 10 ^ ?l + v div 10, None)"
      by (rule 1(1) [OF False b1])
    have b2: "(n * 10 ^ ?l + v div 10) * 10 + v mod 10 \<le> 2 ^ 32 - 1"
      using b by (simp add: algebra_simps)
    have d: "v mod 10 < 10" by simp
    have "parse_digits n (FormatUint v) =
            ((n * 10 ^ ?l + v div 10) * 10 + v mod 10, None)"
      unfolding f parse_digits_append ih using parse_digits_digit [OF d b2] by simp
    also have "(n * 10 ^ ?l + v div 10) * 10 + v mod 10 = n * 10 ^ length (FormatUint v) + v"
      unfolding len using v by (simp add: algebra_simps)
    finally show ?thesis .
  qed
qed

lemma ParseUint32_FormatUint: "v < 2 ^ 32 \<Longrightarrow> ParseUint32 (FormatUint v) = (v, None)"
  using parse_FormatUint [of 0 v] by (simp add: ParseUint32_def FormatUint_nonempty)

lemma parseASN_number: "v < 2 ^ 32 \<Longrightarrow> parseASN (Some (JNumber False v)) = of_nat v"
  by (simp add: parseASN_def)

lemma parseASN_string: "v < 2 ^ 32 \<Longrightarrow> parseASN (Some (JString (FormatUint v))) = of_nat v"
  by (simp add: parseASN_def ParseUint32_FormatUint)

lemma FormatUint_no_leading_zero: "0 < v \<Longrightarrow> hd (FormatUint v) \<noteq> CHR ''0''"
proof (induction v rule: FormatUint.induct)
  case (1 v)
  show ?case
  proof (cases "v < 10")
    case True
    then have f: "FormatUint v = [''0123456789'' ! v]" by (subst FormatUint.simps) simp
    have "(of_char (hd (FormatUint v)) :: nat) = 48 + v" unfolding f using True by (simp add: digit_char)
    with 1(2) show ?thesis by auto
  next
    case False
    then have f: "FormatUint v = FormatUint (v div 10) @ [''0123456789'' ! (v mod 10)]"
      by (subst FormatUint.simps) simp
    from False have "0 < v div 10" by simp
    from 1(1) [OF False this] show ?thesis unfolding f by (simp add: FormatUint_nonempty)
  qed
qed

lemma unmarshal_elements_flatten:
  "unmarshal_elements xs = Some ys \<Longrightarrow> flatten_mixed xs = ys"
  by (induction xs arbitrary: ys) (auto split: option.splits)

lemma parseASPath_array: "parseASPath (Some (JArray xs)) = Inr (flatten_mixed xs)"
  by (simp add: parseASPath_def unmarshal_elements_flatten split: option.splits)

lemma flatten_mixed_append: "flatten_mixed (xs @ ys) = flatten_mixed xs @ flatten_mixed ys"
  by (induction xs) (auto split: option.splits)

lemma unmarshal_elements_numbers:
  "\<forall>n \<in> set ns. n < 2 ^ 32 \<Longrightarrow>
   unmarshal_elements (map (JNumber False) ns) = Some (map of_nat ns)"
  by (induction ns) auto

lemma first_prefix_filter:
  "first_prefix anns =
     (case filter (\<lambda>a. prefixes a \<noteq> []) anns of [] \<Rightarrow> None | a # _ \<Rightarrow> Some (hd (prefixes a)))"
  by (induction anns) (auto split: list.splits)

lemma ParseMessage_ok:
  assumes "parseASPath (path d) = Inr asPath"
  shows "first_prefix (announcements d) = Some pfx \<Longrightarrow>
           ParseMessage (Message ''ris_message'' (Some d)) c =
             Inr (Some \<lparr>Timestamp = (go_trunc (timestamp d),
                     go_trunc ((timestamp d - of_int (go_trunc (timestamp d))) * 1000000000)),
                   PeerASN = parseASN (peer_asn d), Prefix = pfx, ASPath = asPath,
                   OriginASN = (if asPath = [] then 0 else last asPath),
                   Communities = parseCommunities (community d), Announcement = True,
                   Collector = c\<rparr>)"
    and "first_prefix (announcements d) = None \<Longrightarrow> withdrawals d = w # ws \<Longrightarrow>
           ParseMessage (Message ''ris_message'' (Some d)) c =
             Inr (Some \<lparr>Timestamp = (go_trunc (timestamp d),
                     go_trunc ((timestamp d - of_int (go_trunc (timestamp d))) * 1000000000)),
                   PeerASN = parseASN (peer_asn d), Prefix = w, ASPath = [],
                   OriginASN = 0, Communities = [], Announcement = False,
                   Collector = c\<rparr>)"
    and "first_prefix (announcements d) = None \<Longrightarrow> withdrawals d = [] \<Longrightarrow>
           ParseMessage (Message ''ris_message'' (Some d)) c = Inr None"
  using assms by (simp_all add: ParseMessage_def Let_def)

text \<open>
  C3 (as amended). A frame whose type is not \<open>ris_message\<close> yields nothing. For a
  \<open>ris_message\<close> frame whose data decodes and whose path parses: if some announcement
  has a prefix, the parser yields one update with \<open>announcement = true\<close> whose prefix is
  the first prefix of the first announcement that has one (the first prefix of the
  first announcement when that one is not empty); if no announcement has a prefix and
  \<open>withdrawals\<close> is non-empty, it yields one update with \<open>announcement = false\<close>, empty
  path, origin 0, empty communities and the first withdrawn prefix; if no announcement
  has a prefix and \<open>withdrawals\<close> is empty, it yields nothing. A path that does not
  parse yields an error and no update.
\<close>

theorem ParseMessage_first_prefix:
  "(ty \<noteq> ''ris_message'' \<longrightarrow> ParseMessage (Message ty data) c = Inr None) \<and>
   (parseASPath (path d) = Inr asPath \<longrightarrow>
      (first_prefix (announcements d) = Some pfx \<longrightarrow>
         (\<exists>u. ParseMessage (Message ''ris_message'' (Some d)) c = Inr (Some u) \<and>
              Prefix u = pfx \<and> Announcement u \<and> ASPath u = asPath \<and>
              OriginASN u = (if asPath = [] then 0 else last asPath) \<and>
              Communities u = parseCommunities (community d) \<and>
              PeerASN u = parseASN (peer_asn d) \<and> Collector u = c)) \<and>
      (first_prefix (announcements d) = None \<and> withdrawals d = w # ws \<longrightarrow>
         (\<exists>u. ParseMessage (Message ''ris_message'' (Some d)) c = Inr (Some u) \<and>
              Prefix u = w \<and> \<not> Announcement u \<and> ASPath u = [] \<and> OriginASN u = 0 \<and>
              Communities u = [])) \<and>
      (first_prefix (announcements d) = None \<and> withdrawals d = [] \<longrightarrow>
         ParseMessage (Message ''ris_message'' (Some d)) c = Inr None)) \<and>
   (parseASPath (path d) = Inl e \<longrightarrow>
      ParseMessage (Message ''ris_message'' (Some d)) c = Inl ErrParseASPath) \<and>
   (announcements d = [] \<longrightarrow> first_prefix (announcements d) = None) \<and>
   (announcements d = ann # anns \<and> prefixes ann = p1 # ps \<longrightarrow>
      first_prefix (announcements d) = Some p1) \<and>
   first_prefix (announcements d) =
     (case filter (\<lambda>a. prefixes a \<noteq> []) (announcements d) of
        [] \<Rightarrow> None | a # _ \<Rightarrow> Some (hd (prefixes a)))"
proof -
  have A: "ty \<noteq> ''ris_message'' \<longrightarrow> ParseMessage (Message ty data) c = Inr None"
    by (simp add: ParseMessage_def)
  have B: "parseASPath (path d) = Inr asPath \<longrightarrow>
      (first_prefix (announcements d) = Some pfx \<longrightarrow>
         (\<exists>u. ParseMessage (Message ''ris_message'' (Some d)) c = Inr (Some u) \<and>
              Prefix u = pfx \<and> Announcement u \<and> ASPath u = asPath \<and>
              OriginASN u = (if asPath = [] then 0 else last asPath) \<and>
              Communities u = parseCommunities (community d) \<and>
              PeerASN u = parseASN (peer_asn d) \<and> Collector u = c)) \<and>
      (first_prefix (announcements d) = None \<and> withdrawals d = w # ws \<longrightarrow>
         (\<exists>u. ParseMessage (Message ''ris_message'' (Some d)) c = Inr (Some u) \<and>
              Prefix u = w \<and> \<not> Announcement u \<and> ASPath u = [] \<and> OriginASN u = 0 \<and>
              Communities u = [])) \<and>
      (first_prefix (announcements d) = None \<and> withdrawals d = [] \<longrightarrow>
         ParseMessage (Message ''ris_message'' (Some d)) c = Inr None)"
    by (simp add: ParseMessage_ok)
  have C: "parseASPath (path d) = Inl e \<longrightarrow>
      ParseMessage (Message ''ris_message'' (Some d)) c = Inl ErrParseASPath"
    by (simp add: ParseMessage_def)
  have D: "announcements d = [] \<longrightarrow> first_prefix (announcements d) = None"
    "announcements d = ann # anns \<and> prefixes ann = p1 # ps \<longrightarrow>
      first_prefix (announcements d) = Some p1"
    by auto
  from A B C D first_prefix_filter [of "announcements d"] show ?thesis by blast
qed

lemma example_path: "parseASPath (path example_data) = Inr [174, 3356, 7018, 13335]"
  by (simp add: example_data_def parseASPath_def)

theorem ParseMessage_first_prefix_witness:
  "parseASPath (path example_data) = Inr [174, 3356, 7018, 13335] \<and>
   first_prefix (announcements example_data) = Some ''1.1.1.0/24'' \<and>
   (\<exists>u. ParseMessage (Message ''ris_message'' (Some example_data)) ''rrc00'' = Inr (Some u) \<and>
        Prefix u = ''1.1.1.0/24'' \<and> Announcement u \<and> OriginASN u = 13335) \<and>
   parseASPath (path empty_announcement_data) = Inr [] \<and>
   first_prefix (announcements empty_announcement_data) = None \<and>
   withdrawals empty_announcement_data = [''192.0.2.0/24''] \<and>
   (\<exists>u. ParseMessage (Message ''ris_message'' (Some empty_announcement_data)) ''rrc00''
          = Inr (Some u) \<and>
        Prefix u = ''192.0.2.0/24'' \<and> \<not> Announcement u \<and> ASPath u = [] \<and> OriginASN u = 0 \<and>
        Communities u = []) \<and>
   ''ris_error'' \<noteq> ''ris_message'' \<and>
   ParseMessage (Message ''ris_error'' None) ''rrc00'' = Inr None \<and>
   parseASPath (path bad_path_data) = Inl ErrParseASPath \<and>
   ParseMessage (Message ''ris_message'' (Some bad_path_data)) ''rrc00'' = Inl ErrParseASPath"
proof -
  have f: "first_prefix (announcements example_data) = Some ''1.1.1.0/24''"
    by (simp add: example_data_def)
  from ParseMessage_first_prefix
    [of "''ris_message''" None "''rrc00''" example_data "[174, 3356, 7018, 13335]"
        "''1.1.1.0/24''"] example_path f
  have 1: "\<exists>u. ParseMessage (Message ''ris_message'' (Some example_data)) ''rrc00'' = Inr (Some u) \<and>
        Prefix u = ''1.1.1.0/24'' \<and> Announcement u \<and> OriginASN u = 13335"
    by auto
  have e: "parseASPath (path empty_announcement_data) = Inr []"
      "first_prefix (announcements empty_announcement_data) = None"
      "withdrawals empty_announcement_data = [''192.0.2.0/24'']"
    by (simp_all add: empty_announcement_data_def parseASPath_def)
  from ParseMessage_first_prefix
    [of "''ris_message''" None "''rrc00''" empty_announcement_data "[]" "[]"
        "''192.0.2.0/24''" "[]"] e
  have 2: "\<exists>u. ParseMessage (Message ''ris_message'' (Some empty_announcement_data)) ''rrc00''
          = Inr (Some u) \<and>
        Prefix u = ''192.0.2.0/24'' \<and> \<not> Announcement u \<and> ASPath u = [] \<and> OriginASN u = 0 \<and>
        Communities u = []"
    by auto
  have n: "''ris_error'' \<noteq> ''ris_message''" by simp
  with ParseMessage_first_prefix [of "''ris_error''" None "''rrc00''"]
  have 3: "ParseMessage (Message ''ris_error'' None) ''rrc00'' = Inr None"
    by blast
  have b: "parseASPath (path bad_path_data) = Inl ErrParseASPath"
    by (simp add: bad_path_data_def parseASPath_def)
  with ParseMessage_first_prefix
    [of "''ris_message''" None "''rrc00''" bad_path_data _ _ _ _ ErrParseASPath]
  have 4: "ParseMessage (Message ''ris_message'' (Some bad_path_data)) ''rrc00'' = Inl ErrParseASPath"
    by blast
  from example_path f 1 e 2 n 3 b 4 show ?thesis by blast
qed

text \<open>
  The claim as stated fails on a frame whose only announcement has an empty prefix
  list: \<open>announcements\<close> is non-empty, yet the parser yields the withdrawal. It also
  fails on a frame whose path is a JSON string: the parser returns an error although
  \<open>announcements\<close> is non-empty.
\<close>

theorem ParseMessage_empty_prefixes_counterexample:
  "announcements empty_announcement_data \<noteq> [] \<and>
   ParseMessage (Message ''ris_message'' (Some empty_announcement_data)) ''rrc00'' =
     Inr (Some \<lparr>Timestamp = (0, 0), PeerASN = 0, Prefix = ''192.0.2.0/24'', ASPath = [],
                 OriginASN = 0, Communities = [], Announcement = False,
                 Collector = ''rrc00''\<rparr>) \<and>
   announcements bad_path_data \<noteq> [] \<and>
   ParseMessage (Message ''ris_message'' (Some bad_path_data)) ''rrc00'' = Inl ErrParseASPath"
  by (simp add: empty_announcement_data_def bad_path_data_def ParseMessage_def parseASN_def
      parseASPath_def go_trunc_def)


lemma render_pair:
  "a < 2 ^ 32 \<Longrightarrow> b < 2 ^ 32 \<Longrightarrow>
   render_communities (JArray [JNumber False a, JNumber False b] # rest) =
     (FormatUint a @ '':'' @ FormatUint b) # render_communities rest"
  by (simp add: unat_of_nat)

lemma render_string:
  "render_communities (JString s # rest) = s # render_communities rest"
  by simp

text \<open>
  C8. For every \<open>v < 2^32\<close>, \<open>peer_asn\<close> given as the number \<open>v\<close> and as the decimal
  string of \<open>v\<close> parse to the same ASN, and two frames that differ only in that parse
  to equal results. The path \<open>[[174],[3356,7018],13335]\<close> flattens to
  \<open>[174,3356,7018,13335]\<close>; every array path is flattened element by element in
  order, a number giving itself and a group its members; the update's origin is the
  last element of the path, 0 for the empty path. The community list
  \<open>[[65535,666],"no-export"]\<close> renders to \<open>["65535:666","no-export"]\<close>; every pair of
  32-bit numbers renders as the two decimal numbers joined by a colon, and a decimal
  rendering has no leading zero.
\<close>

theorem wire_shape_variants:
  "(v < 2 ^ 32 \<longrightarrow>
      parseASN (Some (JNumber False v)) = of_nat v \<and>
      parseASN (Some (JString (FormatUint v))) = of_nat v \<and>
      ParseMessage (Message ty (Some (d\<lparr>peer_asn := Some (JNumber False v)\<rparr>))) c =
      ParseMessage (Message ty (Some (d\<lparr>peer_asn := Some (JString (FormatUint v))\<rparr>))) c \<and>
      ParseUint32 (FormatUint v) = (v, None)) \<and>
   parseASPath (Some (JArray [JArray [JNumber False 174],
                              JArray [JNumber False 3356, JNumber False 7018],
                              JNumber False 13335]))
     = Inr [174, 3356, 7018, 13335] \<and>
   parseASPath (Some (JArray xs)) = Inr (flatten_mixed xs) \<and>
   flatten_mixed (xs @ ys) = flatten_mixed xs @ flatten_mixed ys \<and>
   (n < 2 ^ 32 \<longrightarrow> flatten_mixed [JNumber False n] = [of_nat n]) \<and>
   ((\<forall>n \<in> set ns. n < 2 ^ 32) \<longrightarrow>
      flatten_mixed [JArray (map (JNumber False) ns)] = map of_nat ns) \<and>
   (parseASPath (path d) = Inr asPath \<and> first_prefix (announcements d) = Some pfx \<longrightarrow>
      (\<exists>u. ParseMessage (Message ''ris_message'' (Some d)) c = Inr (Some u) \<and>
           ASPath u = asPath \<and>
           OriginASN u = (if asPath = [] then 0 else last asPath))) \<and>
   last [174, 3356, 7018, 13335 :: asn] = 13335 \<and>
   parseCommunities (Some [JArray [JNumber False 65535, JNumber False 666],
                           JString ''no-export''])
     = [''65535:666'', ''no-export''] \<and>
   (a < 2 ^ 32 \<and> b < 2 ^ 32 \<longrightarrow>
      render_communities (JArray [JNumber False a, JNumber False b] # rest) =
        (FormatUint a @ '':'' @ FormatUint b) # render_communities rest) \<and>
   render_communities (JString s # rest) = s # render_communities rest \<and>
   (0 < v \<longrightarrow> hd (FormatUint v) \<noteq> CHR ''0'') \<and>
   FormatUint 0 = ''0''"
proof -
  have eq: "v < 2 ^ 32 \<Longrightarrow>
      ParseMessage (Message ty (Some (d\<lparr>peer_asn := Some (JNumber False v)\<rparr>))) c =
      ParseMessage (Message ty (Some (d\<lparr>peer_asn := Some (JString (FormatUint v))\<rparr>))) c"
    by (simp add: ParseMessage_def Let_def parseASN_number parseASN_string
        split: sum.splits option.splits list.splits)
  have A: "v < 2 ^ 32 \<longrightarrow>
      parseASN (Some (JNumber False v)) = of_nat v \<and>
      parseASN (Some (JString (FormatUint v))) = of_nat v \<and>
      ParseMessage (Message ty (Some (d\<lparr>peer_asn := Some (JNumber False v)\<rparr>))) c =
      ParseMessage (Message ty (Some (d\<lparr>peer_asn := Some (JString (FormatUint v))\<rparr>))) c \<and>
      ParseUint32 (FormatUint v) = (v, None)"
    using eq parseASN_number parseASN_string ParseUint32_FormatUint by blast
  have B: "parseASPath (Some (JArray [JArray [JNumber False 174],
                              JArray [JNumber False 3356, JNumber False 7018],
                              JNumber False 13335]))
     = Inr [174, 3356, 7018, 13335]"
    by (simp add: parseASPath_def)
  have C: "n < 2 ^ 32 \<longrightarrow> flatten_mixed [JNumber False n] = [of_nat n]"
    by simp
  have D: "(\<forall>n \<in> set ns. n < 2 ^ 32) \<longrightarrow>
      flatten_mixed [JArray (map (JNumber False) ns)] = map of_nat ns"
    by (simp add: unmarshal_elements_numbers)
  have E: "parseASPath (path d) = Inr asPath \<and> first_prefix (announcements d) = Some pfx \<longrightarrow>
      (\<exists>u. ParseMessage (Message ''ris_message'' (Some d)) c = Inr (Some u) \<and>
           ASPath u = asPath \<and>
           OriginASN u = (if asPath = [] then 0 else last asPath))"
    by (simp add: ParseMessage_ok)
  have F: "last [174, 3356, 7018, 13335 :: asn] = 13335" by simp
  have G: "parseCommunities (Some [JArray [JNumber False 65535, JNumber False 666],
                           JString ''no-export''])
     = [''65535:666'', ''no-export'']"
    by (simp add: parseCommunities_def FormatUint.simps)
  have H: "a < 2 ^ 32 \<and> b < 2 ^ 32 \<longrightarrow>
      render_communities (JArray [JNumber False a, JNumber False b] # rest) =
        (FormatUint a @ '':'' @ FormatUint b) # render_communities rest"
    using render_pair by blast
  have I: "0 < v \<longrightarrow> hd (FormatUint v) \<noteq> CHR ''0''"
    using FormatUint_no_leading_zero by blast
  have J: "FormatUint 0 = ''0''" by (simp add: FormatUint.simps)
  from A B parseASPath_array [of xs] flatten_mixed_append [of xs ys] C D E F G H
    render_string [of s rest] I J
  show ?thesis by blast
qed

theorem wire_shape_variants_witness:
  "(6939 :: nat) < 2 ^ 32 \<and>
   parseASN (Some (JNumber False 6939)) = 6939 \<and>
   parseASN (Some (JString ''6939'')) = 6939 \<and>
   ParseMessage (Message ''ris_message'' (Some (example_data\<lparr>peer_asn := Some (JNumber False 6939)\<rparr>))) ''rrc00'' =
   ParseMessage (Message ''ris_message'' (Some (example_data\<lparr>peer_asn := Some (JString ''6939'')\<rparr>))) ''rrc00'' \<and>
   (\<exists>u. ParseMessage (Message ''ris_message'' (Some example_data)) ''rrc00'' = Inr (Some u) \<and>
        ASPath u = [174, 3356, 7018, 13335] \<and> OriginASN u = 13335) \<and>
   render_communities [JArray [JNumber False 3356, JNumber False 9999]] = [''3356:9999'']"
proof -
  have v: "(6939 :: nat) < 2 ^ 32" "(3356 :: nat) < 2 ^ 32 \<and> (9999 :: nat) < 2 ^ 32" by simp_all
  have f: "FormatUint 6939 = ''6939''" "FormatUint 3356 = ''3356''" "FormatUint 9999 = ''9999''"
    by (simp_all add: FormatUint.simps)
  have fp: "first_prefix (announcements example_data) = Some ''1.1.1.0/24''"
    by (simp add: example_data_def)
  note T = wire_shape_variants
    [of 6939 "''ris_message''" example_data "''rrc00''" "[]" "[]" 0 "[]"
        "[174, 3356, 7018, 13335]" "''1.1.1.0/24''" 3356 9999 "[]" "[]"]
  from T v have 1: "parseASN (Some (JNumber False 6939)) = 6939"
      "parseASN (Some (JString ''6939'')) = 6939"
      "ParseMessage (Message ''ris_message'' (Some (example_data\<lparr>peer_asn := Some (JNumber False 6939)\<rparr>))) ''rrc00'' =
       ParseMessage (Message ''ris_message'' (Some (example_data\<lparr>peer_asn := Some (JString ''6939'')\<rparr>))) ''rrc00''"
    unfolding f by simp_all
  from T example_path fp
  have 2: "\<exists>u. ParseMessage (Message ''ris_message'' (Some example_data)) ''rrc00'' = Inr (Some u) \<and>
        ASPath u = [174, 3356, 7018, 13335] \<and> OriginASN u = 13335"
    by simp
  from T v have 3: "render_communities [JArray [JNumber False 3356, JNumber False 9999]] = [''3356:9999'']"
    unfolding f by simp
  from v 1 2 3 show ?thesis by blast
qed

subsection \<open>Resolver and event sink\<close>

lemma upper_byte_not_lower:
  "\<not> (97 \<le> (of_char (upper_byte c) :: nat) \<and> (of_char (upper_byte c) :: nat) \<le> 122)"
  by (auto simp: upper_byte_def)

lemma load_records_invariant:
  assumes P: "\<And>s. length (ToUpper s) = 2 \<Longrightarrow> P (ToUpper s)"
  shows "(\<And>k v. mapping k = Some v \<Longrightarrow> P v) \<Longrightarrow>
         load_records n mapping rest k = Some v \<Longrightarrow> P v"
proof (induction rest arbitrary: mapping)
  case Nil
  then show ?case by simp
next
  case (Cons r rest)
  show ?case
  proof (cases r)
    case ParseError
    with Cons.prems(2) have "load_records n mapping rest k = Some v" by simp
    with Cons.IH Cons.prems(1) show ?thesis by blast
  next
    case (Record fields)
    let ?country = "ToUpper (TrimSpace (fields ! 1))"
    show ?thesis
    proof (cases "length fields = n \<and> \<not> length fields < 2 \<and>
        Atoi (TrimSpace (fields ! 0)) \<noteq> None \<and> length ?country = 2")
      case False
      with Cons.prems(2) Record have "load_records n mapping rest k = Some v"
        by (auto simp: Let_def split: if_splits option.splits)
      with Cons.IH Cons.prems(1) show ?thesis by blast
    next
      case True
      then obtain a where a: "Atoi (TrimSpace (fields ! 0)) = Some a" by auto
      with True Cons.prems(2) Record
      have l: "load_records n (mapping(a \<mapsto> ?country)) rest k = Some v"
        by (simp add: Let_def)
      have "\<And>k v. (mapping(a \<mapsto> ?country)) k = Some v \<Longrightarrow> P v"
        using Cons.prems(1) P True by (auto split: if_splits)
      from Cons.IH [OF this l] show ?thesis .
    qed
  qed
qed

lemma later_rows_two_upper_case_bytes:
  assumes "load (Record header # rest) = Inr m"
    and "length header < 2 \<or> Atoi (TrimSpace (header ! 0)) = None"
    and "m k = Some v"
  shows "length v = 2 \<and> (\<forall>c \<in> set v. \<not> (97 \<le> (of_char c :: nat) \<and> (of_char c :: nat) \<le> 122))"
proof -
  from assms(1,2) have m: "m = load_records (length header) Map.empty rest"
    by (auto simp: load_def Let_def split: if_splits)
  show ?thesis
  proof (rule load_records_invariant [where mapping = Map.empty and n = "length header"
          and rest = rest and k = k])
    show "length (ToUpper s) = 2 \<Longrightarrow>
        length (ToUpper s) = 2 \<and>
        (\<forall>c \<in> set (ToUpper s). \<not> (97 \<le> (of_char c :: nat) \<and> (of_char c :: nat) \<le> 122))" for s
      using upper_byte_not_lower by (auto simp: ToUpper_def)
    show "load_records (length header) Map.empty rest k = Some v"
      using assms(3) m by simp
  qed simp
qed

lemma atoi_13335: "Atoi (TrimSpace ''13335'') = Some 13335"
  by (simp add: Atoi_def TrimSpace_def is_space_def is_digit_def digits_value_def Let_def)

text \<open>
  C9. The claim holds for every row after the first (lemma
  \<open>later_rows_two_upper_case_bytes\<close> for a file with a header), but \<open>load\<close> stores the
  country of a numeric first row without the length test the loop applies: the file
  \<open>13335,usa\<close> yields the three-byte code \<open>USA\<close>, while the same row after a header is
  rejected and a two-byte country is stored upper-cased.
\<close>

theorem load_first_row_length_unchecked:
  "load [Record [''13335'', ''usa'']] = Inr [13335 \<mapsto> ''USA''] \<and>
   load [Record [''asn'', ''country_code''], Record [''13335'', ''usa'']] = Inr Map.empty \<and>
   load [Record [''asn'', ''country_code''], Record [''13335'', ''us'']] = Inr [13335 \<mapsto> ''US'']"
proof -
  have u: "ToUpper ''usa'' = ''USA''" "ToUpper ''us'' = ''US''"
    by code_simp+
  have t: "TrimSpace ''usa'' = ''usa''" "TrimSpace ''us'' = ''us''" "TrimSpace ''asn'' = ''asn''"
    by (simp_all add: TrimSpace_def is_space_def)
  have a: "Atoi ''asn'' = None"
    by (simp add: Atoi_def is_digit_def Let_def)
  show ?thesis
    by (simp add: load_def atoi_13335 t u a Let_def)
qed

lemma detector_as_path:
  "Details (hijack_event now u k) ''as_path'' = Some (DUint32s (ASPath u))"
  "BlackholeDetector_event now u = Some e \<Longrightarrow> Details e ''as_path'' = Some (DUint32s (ASPath u))"
  "LeakDetector_event now u = Some e \<Longrightarrow> Details e ''as_path'' = Some (DUint32s (ASPath u))"
  by (auto simp: hijack_event_def BlackholeDetector_event_def LeakDetector_event_def Let_def
      zero_event_def split: if_splits prod.splits)

lemma sink_ignores_uint32_path:
  assumes "Details e ''as_path'' = Some (DUint32s p)" "CountryCode e = []"
  shows "CountryCode (resolve_country r e) =
           (if AffectedASN e > 0 \<and> Resolve r (AffectedASN e) \<noteq> []
            then Resolve r (AffectedASN e) else ''XX'')"
  using assms by (simp add: resolve_country_def Let_def)

text \<open>
  C4. The detectors store \<open>as_path\<close> as a \<open>[]uint32\<close>; the sink's type assertion asks for
  \<open>[]interface{}\<close>, so for a detector's event the path is never resolved. The hijack
  event below has an affected ASN unknown to the resolver and a path whose first ASN
  the resolver maps to \<open>US\<close>; the sink sets \<open>XX\<close>. The same event with the path held
  as \<open>[]interface{}\<close> gets \<open>US\<close>.
\<close>

theorem sink_skips_detector_path:
  "CountryCode (hijack_event 0 sink_update 64500) = [] \<and>
   AffectedASN (hijack_event 0 sink_update 64500) = 64500 \<and>
   Resolve sink_resolver 64500 = [] \<and>
   Details (hijack_event 0 sink_update 64500) ''as_path'' = Some (DUint32s [6939, 64501]) \<and>
   Resolve sink_resolver 6939 = ''US'' \<and>
   ResolveFromPath sink_resolver [6939, 64501] = ''US'' \<and>
   CountryCode (resolve_country sink_resolver (hijack_event 0 sink_update 64500)) = ''XX'' \<and>
   CountryCode (resolve_country sink_resolver
     ((hijack_event 0 sink_update 64500)
        \<lparr>Details := (Details (hijack_event 0 sink_update 64500))
                       (''as_path'' \<mapsto> DIfaces [DInt 6939, DInt 64501])\<rparr>)) = ''US''"
  by (simp add: resolve_country_def Let_def hijack_event_def zero_event_def sink_update_def
      sink_resolver_def lookup_country_def)

end
